theory Spec2Isabelle
  imports Main "HOL-Library.AList" "HOL-Library.Sublist"
begin

section \<open>The osd-pm Project model (packages/osd-pm/src/utils/project.ts)\<close>

text \<open>
  A shallow embedding of the \<open>Project\<close> class of the osd-pm workspace manager: the
  constructor with its derived fields, the dependency validator
  \<open>ensureValidProjectDependency\<close>, \<open>getExecutables\<close>, \<open>installDependencyVersion\<close> and
  the reconciler \<open>removeExtraneousNodeModules\<close>.

  JavaScript objects are association lists of their own properties: \<open>Object.keys\<close> lists
  the keys in insertion order, a read of an own property is a lookup that yields \<open>None\<close>
  for \<open>undefined\<close>, and defining a property updates the entry in place or appends it.
  Where the code reads or assigns a name that the data decides, the members that every
  object inherits from \<open>Object.prototype\<close> are modelled too. Console logging is left out.
\<close>

subsection \<open>JavaScript values and objects\<close>

datatype json_value =
    JNull
  | JBool bool
  | JNum int
  | JStr string
  | JArr "json_value list"
  | JObj "(string \<times> json_value) list"

text \<open>
  Truthiness of a parsed JSON value, as \<open>!raw\<close> and \<open>if (x)\<close> test it. Numbers are
  integers here: of a number the code only asks whether it is zero.
\<close>

fun truthy :: "json_value \<Rightarrow> bool" where
  "truthy JNull = False"
| "truthy (JBool b) = b"
| "truthy (JNum n) = (n \<noteq> 0)"
| "truthy (JStr s) = (s \<noteq> [])"
| "truthy (JArr xs) = True"
| "truthy (JObj kvs) = True"

text \<open>A property read that may be \<open>undefined\<close> is truthy only when it is present and truthy.\<close>

fun truthy_prop :: "json_value option \<Rightarrow> bool" where
  "truthy_prop None = False"
| "truthy_prop (Some v) = truthy v"

datatype js_type = T_object | T_boolean | T_number | T_string

fun js_typeof :: "json_value \<Rightarrow> js_type" where
  "js_typeof JNull = T_object"
| "js_typeof (JBool b) = T_boolean"
| "js_typeof (JNum n) = T_number"
| "js_typeof (JStr s) = T_string"
| "js_typeof (JArr xs) = T_object"
| "js_typeof (JObj kvs) = T_object"

definition object_keys :: "('k \<times> 'v) list \<Rightarrow> 'k list" where
  "object_keys obj = map fst obj"

definition get_prop :: "('k \<times> 'v) list \<Rightarrow> 'k \<Rightarrow> 'v option" where
  "get_prop obj k = map_of obj k"

definition set_prop :: "'k \<Rightarrow> 'v \<Rightarrow> ('k \<times> 'v) list \<Rightarrow> ('k \<times> 'v) list" where
  "set_prop k v obj = AList.update k v obj"

definition hasOwnProperty :: "('k \<times> 'v) list \<Rightarrow> 'k \<Rightarrow> bool" where
  "hasOwnProperty obj k = (k \<in> set (object_keys obj))"

text \<open>
  Object spread \<open>{...target, ...source}\<close>: every own key of the source, in order, is read
  from the source and assigned to the target.
\<close>

fun copy_keys :: "('k \<times> 'v) list \<Rightarrow> 'k list \<Rightarrow> ('k \<times> 'v) list \<Rightarrow> ('k \<times> 'v) list" where
  "copy_keys source [] target = target"
| "copy_keys source (k # ks) target =
     copy_keys source ks
       (case get_prop source k of None \<Rightarrow> target | Some v \<Rightarrow> set_prop k v target)"

definition spread :: "('k \<times> 'v) list \<Rightarrow> ('k \<times> 'v) list \<Rightarrow> ('k \<times> 'v) list" where
  "spread target source = copy_keys source (object_keys source) target"

subsection \<open>Node's path and util functions\<close>

text \<open>
  \<open>path.resolve\<close>, \<open>path.relative\<close> and \<open>util.inspect\<close> belong to the Node runtime and
  depend on the platform; the model takes them as parameters. So is the text that the
  runtime prints for a member of \<open>Object.prototype\<close>, given the member's name.
\<close>

record node_lib =
  resolve :: "string \<Rightarrow> string \<Rightarrow> string"
  relative :: "string \<Rightarrow> string \<Rightarrow> string"
  inspect :: "json_value \<Rightarrow> string"
  inherited_text :: "string \<Rightarrow> string"

subsection \<open>Manifest and Project\<close>

text \<open>
  The parsed package.json. \<open>name\<close> is a string; every other key may be absent, the
  \<open>version\<close> too: the manifest is read as it is and a package.json need not have one.
\<close>

record IPackageJson =
  pj_name :: string
  pj_version :: "string option"
  pj_dependencies :: "(string \<times> string) list option"
  pj_devDependencies :: "(string \<times> string) list option"
  pj_scripts :: "(string \<times> string) list option"
  pj_bin :: "json_value option"
  pj_workspaces :: "json_value option"
  pj_osd_pm :: "(string \<times> json_value) list option"

record Project =
  json :: IPackageJson
  packageJsonLocation :: string
  nodeModulesLocation :: string
  targetLocation :: string
  path :: string
  version :: "string option"
  allDependencies :: "(string \<times> string) list"
  productionDependencies :: "(string \<times> string) list"
  devDependencies :: "(string \<times> string) list"
  scripts :: "(string \<times> string) list"
  customDefinitions :: "(string \<times> json_value) list"
  buildTargets :: "string list"
  isWorkspaceRoot :: bool
  isWorkspaceProject :: bool

text \<open>\<open>x || {}\<close> for a key that holds an object when it is present.\<close>

fun or_empty :: "('k \<times> 'v) list option \<Rightarrow> ('k \<times> 'v) list" where
  "or_empty None = []"
| "or_empty (Some obj) = obj"

text \<open>
  The constructor's loop over \<open>BuildTargets\<close>, pushing every target whose key in the
  custom definitions is truthy.
\<close>

fun push_targets :: "(string \<times> json_value) list \<Rightarrow> string list \<Rightarrow> string list \<Rightarrow> string list" where
  "push_targets defs [] acc = acc"
| "push_targets defs (target # rest) acc =
     push_targets defs rest (if truthy_prop (get_prop defs target) then acc @ [target] else acc)"

text \<open>
  \<open>BuildTargets\<close> (targeted_build.ts) is the fixed enumeration of build targets; it is a
  parameter of the constructor here. A property read looks at the object's own keys, so the
  members of the enumeration are taken not to be names that every object inherits.
\<close>

definition new_Project :: "node_lib \<Rightarrow> string list \<Rightarrow> IPackageJson \<Rightarrow> string \<Rightarrow> Project" where
  "new_Project node BuildTargets packageJson projectPath =
     (let prod = or_empty (pj_dependencies packageJson);
          dev = or_empty (pj_devDependencies packageJson);
          defs = or_empty (pj_osd_pm packageJson)
      in \<lparr> json = packageJson,
           packageJsonLocation = resolve node projectPath ''package.json'',
           nodeModulesLocation = resolve node projectPath ''node_modules'',
           targetLocation = resolve node projectPath ''target'',
           path = projectPath,
           version = pj_version packageJson,
           allDependencies = spread (spread [] dev) prod,
           productionDependencies = prod,
           devDependencies = dev,
           scripts = or_empty (pj_scripts packageJson),
           customDefinitions = defs,
           buildTargets = push_targets defs BuildTargets [],
           isWorkspaceRoot = (pj_workspaces packageJson \<noteq> None),
           isWorkspaceProject = False \<rparr>)"

definition Project_name :: "Project \<Rightarrow> string" where
  "Project_name p = pj_name (json p)"

subsection \<open>Dependency validator\<close>

datatype error =
    CliError string "(string \<times> string) list"
  | TypeError
  | DriverError string

text \<open>
  What a read of \<open>this.allDependencies[name]\<close> or of \<open>project.json.version\<close> can yield:
  \<open>undefined\<close>, a string, or, when the object has no own key of that name, a member that
  every object inherits from \<open>Object.prototype\<close> (a function, or the prototype itself for
  \<open>__proto__\<close>); the inherited member is named by its key.
\<close>

datatype js_value = Undefined | Str string | Inherited string

definition object_prototype_names :: "string list" where
  "object_prototype_names =
     [''constructor'', ''__defineGetter__'', ''__defineSetter__'', ''hasOwnProperty'',
      ''__lookupGetter__'', ''__lookupSetter__'', ''isPrototypeOf'', ''propertyIsEnumerable'',
      ''toString'', ''valueOf'', ''__proto__'', ''toLocaleString'']"

definition read_prop :: "(string \<times> string) list \<Rightarrow> string \<Rightarrow> js_value" where
  "read_prop obj k =
     (case get_prop obj k of
        Some v \<Rightarrow> Str v
      | None \<Rightarrow> if k \<in> set object_prototype_names then Inherited k else Undefined)"

fun optional_string :: "string option \<Rightarrow> js_value" where
  "optional_string None = Undefined"
| "optional_string (Some s) = Str s"

text \<open>A template literal prints an \<open>undefined\<close> value as the text \<open>undefined\<close>.\<close>

fun template_string :: "node_lib \<Rightarrow> js_value \<Rightarrow> string" where
  "template_string node Undefined = ''undefined''"
| "template_string node (Str s) = s"
| "template_string node (Inherited k) = inherited_text node k"

definition isSep :: "char \<Rightarrow> bool" where
  "isSep c = (c = CHR 0x5C \<or> c = CHR ''/'')"

text \<open>
  The global replacement in \<open>normalizePath\<close>: every maximal run of backslashes and
  slashes becomes one forward slash.
\<close>

function normalizePath :: "string \<Rightarrow> string" where
  "normalizePath [] = []"
| "normalizePath (c # cs) =
     (if isSep c then CHR ''/'' # normalizePath (dropWhile isSep cs)
      else c # normalizePath cs)"
  by pat_completeness auto
termination
  by (relation "measure length") (auto simp: length_dropWhile_le less_Suc_eq_le)

text \<open>
  Modelled from the spec: \<open>isLinkDependency\<close> is defined in package_json.ts, outside
  project.ts. The spec calls a declared version string a link reference when it has the
  form \<open>link:\<close> followed by a path. On a value that is not a string the spec is silent:
  what the helper does there, answer or throw, is the parameter \<open>nonString\<close>.
\<close>

fun isLinkDependency :: "(js_value \<Rightarrow> error + bool) \<Rightarrow> js_value \<Rightarrow> error + bool" where
  "isLinkDependency nonString (Str depVersion) = Inr (prefix ''link:'' depVersion)"
| "isLinkDependency nonString v = nonString v"

definition problemMsg :: "bool \<Rightarrow> bool \<Rightarrow> string" where
  "problemMsg isLink dependentProjectIsInWorkspace =
     (if isLink \<and> dependentProjectIsInWorkspace then ''but should be using a workspace''
      else if isLink then ''using '' @ [CHR 0x27] @ ''link:'' @ [CHR 0x27] @ '', but the path is wrong''
      else ''but it'' @ [CHR 0x27] @ ''s not using the local package'')"

definition expectedVersionInPackageJson :: "node_lib \<Rightarrow> Project \<Rightarrow> Project \<Rightarrow> bool \<Rightarrow> js_value" where
  "expectedVersionInPackageJson node this project dependentProjectIsInWorkspace =
     (if dependentProjectIsInWorkspace then optional_string (pj_version (json project))
      else Str (''link:'' @ normalizePath (relative node (path this) (path project))))"

definition ensureValidProjectDependency ::
  "node_lib \<Rightarrow> (js_value \<Rightarrow> error + bool) \<Rightarrow> Project \<Rightarrow> Project \<Rightarrow> bool \<Rightarrow> error + unit" where
  "ensureValidProjectDependency node nonString this project dependentProjectIsInWorkspace =
     (let versionInPackageJson = read_prop (allDependencies this) (Project_name project);
          expected = expectedVersionInPackageJson node this project dependentProjectIsInWorkspace
      in if versionInPackageJson = expected then Inr ()
         else
           (case isLinkDependency nonString versionInPackageJson of
              Inl e \<Rightarrow> Inl e
            | Inr isLink \<Rightarrow>
                Inl (CliError
                  (''['' @ Project_name this @ ''] depends on ['' @ Project_name project @ ''] '' @
                     problemMsg isLink dependentProjectIsInWorkspace @
                     ''. Update its package.json to the expected value below.'')
                  [(''actual'', [CHR 0x22] @ Project_name project @ [CHR 0x22] @ '': '' @
                      [CHR 0x22] @ template_string node versionInPackageJson @ [CHR 0x22]),
                   (''expected'', [CHR 0x22] @ Project_name project @ [CHR 0x22] @ '': '' @
                      [CHR 0x22] @ template_string node expected @ [CHR 0x22]),
                   (''package'', Project_name this @ '' ('' @ packageJsonLocation this @ '')'')])))"

subsection \<open>Executables\<close>

definition digit_char :: "nat \<Rightarrow> char" where
  "digit_char n = ''0123456789'' ! n"

function string_of_nat :: "nat \<Rightarrow> string" where
  "string_of_nat n =
     (if n < 10 then [digit_char n] else string_of_nat (n div 10) @ [digit_char (n mod 10)])"
  by pat_completeness auto
termination
  by (relation "measure id") auto

declare string_of_nat.simps [simp del]

text \<open>
  The own enumerable properties of an object-typed value: the entries of an object, and
  for an array its elements under their indices.
\<close>

fun entries :: "json_value \<Rightarrow> (string \<times> json_value) list" where
  "entries (JObj kvs) = kvs"
| "entries (JArr xs) = zip (map string_of_nat [0..<length xs]) xs"
| "entries v = []"

text \<open>
  \<open>resolve(this.path, x)\<close> for a value read from the manifest: Node's \<open>path.resolve\<close>
  throws a TypeError unless every argument is a string.
\<close>

fun resolve_value :: "node_lib \<Rightarrow> string \<Rightarrow> json_value option \<Rightarrow> error + string" where
  "resolve_value node dir (Some (JStr s)) = Inr (resolve node dir s)"
| "resolve_value node dir v = Inl TypeError"

text \<open>
  The assignment \<open>binsConfig[binName] = ...\<close> of a string: for the name \<open>__proto__\<close> it
  reaches the accessor that every object inherits, whose setter ignores a value that is
  not an object, so nothing is stored.
\<close>

definition assign_prop :: "string \<Rightarrow> 'v \<Rightarrow> (string \<times> 'v) list \<Rightarrow> (string \<times> 'v) list" where
  "assign_prop k v obj = (if k = ''__proto__'' then obj else set_prop k v obj)"

fun binsConfig_loop ::
  "node_lib \<Rightarrow> string \<Rightarrow> (string \<times> json_value) list \<Rightarrow> string list \<Rightarrow>
   (string \<times> string) list \<Rightarrow> error + (string \<times> string) list" where
  "binsConfig_loop node dir raw [] binsConfig = Inr binsConfig"
| "binsConfig_loop node dir raw (binName # rest) binsConfig =
     (case resolve_value node dir (get_prop raw binName) of
        Inl e \<Rightarrow> Inl e
      | Inr p \<Rightarrow> binsConfig_loop node dir raw rest (assign_prop binName p binsConfig))"

definition getExecutables :: "node_lib \<Rightarrow> Project \<Rightarrow> error + (string \<times> string) list" where
  "getExecutables node p =
     (case pj_bin (json p) of
        None \<Rightarrow> Inr []
      | Some raw \<Rightarrow>
          if \<not> truthy raw then Inr []
          else if js_typeof raw = T_string then
            (case resolve_value node (path p) (Some raw) of
               Inl e \<Rightarrow> Inl e
             | Inr p' \<Rightarrow> Inr [(Project_name p, p')])
          else if js_typeof raw = T_object then
            binsConfig_loop node (path p) (entries raw) (object_keys (entries raw)) []
          else Inl (CliError
                 (''['' @ Project_name p @ ''] has an invalid '' @ [CHR 0x22] @ ''bin'' @ [CHR 0x22] @
                  '' field in its package.json, expected an object or a string'')
                 [(''binConfig'', inspect node raw),
                  (''package'', Project_name p @ '' ('' @ packageJsonLocation p @ '')'')]))"

subsection \<open>The driver, the file system and the operations that use them\<close>

text \<open>
  The external operation driver (scripts.ts) runs yarn. What an install does to the files
  and what the workspace query answers are parameters; either may fail. The world holds
  the files by path and the log of the driver calls and removals made so far.
\<close>

datatype call =
    InstallInDir string "string list option" "bool option"
  | PatchFile string string string
  | YarnWorkspacesInfo string
  | UnlinkSync string

record world =
  files :: "string \<rightharpoonup> string"
  calls :: "call list"

record driver =
  drv_installInDir ::
    "string \<Rightarrow> string list option \<Rightarrow> bool option \<Rightarrow> (string \<rightharpoonup> string) \<Rightarrow> error + (string \<rightharpoonup> string)"
  drv_yarnWorkspacesInfo ::
    "string \<Rightarrow> (string \<rightharpoonup> string) \<Rightarrow> error + (string \<times> string list) list"

definition installInDir ::
  "driver \<Rightarrow> string \<Rightarrow> string list option \<Rightarrow> bool option \<Rightarrow> world \<Rightarrow> (error + unit) \<times> world" where
  "installInDir drv dir extraArgs useAdd w =
     (let w1 = w\<lparr>calls := calls w @ [InstallInDir dir extraArgs useAdd]\<rparr>
      in case drv_installInDir drv dir extraArgs useAdd (files w) of
           Inl e \<Rightarrow> (Inl e, w1)
         | Inr fs \<Rightarrow> (Inr (), w1\<lparr>files := fs\<rparr>))"

definition yarnWorkspacesInfo ::
  "driver \<Rightarrow> string \<Rightarrow> world \<Rightarrow> (error + (string \<times> string list) list) \<times> world" where
  "yarnWorkspacesInfo drv dir w =
     (drv_yarnWorkspacesInfo drv dir (files w), w\<lparr>calls := calls w @ [YarnWorkspacesInfo dir]\<rparr>)"

text \<open>Literal replacement of every occurrence, scanning from the left.\<close>

function replaceAll :: "string \<Rightarrow> string \<Rightarrow> string \<Rightarrow> string" where
  "replaceAll pat rep [] = []"
| "replaceAll pat rep (c # cs) =
     (if pat \<noteq> [] \<and> prefix pat (c # cs)
      then rep @ replaceAll pat rep (drop (length pat) (c # cs))
      else c # replaceAll pat rep cs)"
  by pat_completeness auto
termination
  by (relation "measure (\<lambda>(pat, rep, s). length s)") (auto simp: Suc_le_eq)

text \<open>
  Modelled from the spec: \<open>patchFile\<close> is defined in scripts.ts, outside project.ts.
  The spec has it rewrite the file at the path in place, replacing every literal occurrence
  of the search text by the replacement. A file that does not exist cannot be patched: the
  call fails. An empty search text, which \<open>installDependencyVersion\<close> never passes, leaves
  the text as it is.
\<close>

definition patchFile :: "string \<Rightarrow> string \<Rightarrow> string \<Rightarrow> world \<Rightarrow> (error + unit) \<times> world" where
  "patchFile file searchValue replacement w =
     (let w1 = w\<lparr>calls := calls w @ [PatchFile file searchValue replacement]\<rparr>
      in case files w file of
           None \<Rightarrow> (Inl (DriverError file), w1)
         | Some content \<Rightarrow>
             (Inr (), w1\<lparr>files := (files w)(file \<mapsto> replaceAll searchValue replacement content)\<rparr>))"

definition existsSync :: "string \<Rightarrow> world \<Rightarrow> bool" where
  "existsSync file w = (files w file \<noteq> None)"

definition unlinkSync :: "string \<Rightarrow> world \<Rightarrow> (error + unit) \<times> world" where
  "unlinkSync file w =
     (let w1 = w\<lparr>calls := calls w @ [UnlinkSync file]\<rparr>
      in if files w file = None then (Inl (DriverError file), w1)
         else (Inr (), w1\<lparr>files := (files w)(file := None)\<rparr>))"

text \<open>A \<open>Set\<close> of names in insertion order.\<close>

fun Set_add :: "'a \<Rightarrow> 'a list \<Rightarrow> 'a list" where
  "Set_add x s = (if x \<in> set s then s else s @ [x])"

definition new_Set :: "'a list \<Rightarrow> 'a list" where
  "new_Set xs = foldl (\<lambda>s x. Set_add x s) [] xs"

definition Set_delete :: "'a \<Rightarrow> 'a list \<Rightarrow> 'a list" where
  "Set_delete x s = removeAll x s"

text \<open>
  The first loop of the reconciler: for every workspace, each of its workspace
  dependencies is deleted from the set of unused workspaces.
\<close>

fun delete_used ::
  "(string \<times> string list) list \<Rightarrow> string list \<Rightarrow> string list \<Rightarrow> string list" where
  "delete_used workspacesInfo [] unusedWorkspaces = unusedWorkspaces"
| "delete_used workspacesInfo (name # rest) unusedWorkspaces =
     delete_used workspacesInfo rest
       (case get_prop workspacesInfo name of
          None \<Rightarrow> unusedWorkspaces
        | Some workspaceDependencies \<Rightarrow> fold Set_delete workspaceDependencies unusedWorkspaces)"

definition declares :: "(string \<times> string) list option \<Rightarrow> string \<Rightarrow> bool" where
  "declares deps name = (case deps of None \<Rightarrow> False | Some d \<Rightarrow> hasOwnProperty d name)"

text \<open>The second loop: the body of \<open>unusedWorkspaces.forEach\<close>.\<close>

fun remove_unused :: "node_lib \<Rightarrow> Project \<Rightarrow> string list \<Rightarrow> world \<Rightarrow> (error + unit) \<times> world" where
  "remove_unused node p [] w = (Inr (), w)"
| "remove_unused node p (name # rest) w =
     (let nodeModulesPath = resolve node (nodeModulesLocation p) name;
          isDependency = declares (pj_dependencies (json p)) name;
          isDevDependency = declares (pj_devDependencies (json p)) name
      in if \<not> isDependency \<and> \<not> isDevDependency \<and> existsSync nodeModulesPath w
         then (case unlinkSync nodeModulesPath w of
                 (Inl e, w') \<Rightarrow> (Inl e, w')
               | (Inr u, w') \<Rightarrow> remove_unused node p rest w')
         else remove_unused node p rest w)"

definition removeExtraneousNodeModules ::
  "driver \<Rightarrow> node_lib \<Rightarrow> Project \<Rightarrow> world \<Rightarrow> (error + unit) \<times> world" where
  "removeExtraneousNodeModules drv node p w =
     (if \<not> isWorkspaceRoot p then (Inr (), w)
      else case yarnWorkspacesInfo drv (path p) w of
             (Inl e, w1) \<Rightarrow> (Inl e, w1)
           | (Inr workspacesInfo, w1) \<Rightarrow>
               remove_unused node p
                 (delete_used workspacesInfo (object_keys workspacesInfo)
                    (new_Set (object_keys workspacesInfo))) w1)"

definition rangeToUse :: "string \<Rightarrow> string option \<Rightarrow> string" where
  "rangeToUse ver rng =
     (case rng of
        None \<Rightarrow> ''^'' @ ver
      | Some r \<Rightarrow> if r = [] then ''^'' @ ver else r)"

definition installDependencyVersion ::
  "driver \<Rightarrow> node_lib \<Rightarrow> Project \<Rightarrow> string \<Rightarrow> string \<Rightarrow> bool \<Rightarrow> string option \<Rightarrow> world \<Rightarrow>
   (error + unit) \<times> world" where
  "installDependencyVersion drv node p depName ver dev rng w =
     (let extraArgs = [depName @ ''@'' @ ver] @ (if dev then [''--dev''] else [])
      in case (if isWorkspaceProject p then installInDir drv (path p) None None w
               else installInDir drv (path p) (Some extraArgs) (Some True) w) of
           (Inl e, w1) \<Rightarrow> (Inl e, w1)
         | (Inr u1, w1) \<Rightarrow>
             (case patchFile (packageJsonLocation p)
                     ([CHR 0x22] @ depName @ [CHR 0x22] @ '': '' @ [CHR 0x22] @ ver @ [CHR 0x22])
                     ([CHR 0x22] @ depName @ [CHR 0x22] @ '': '' @
                        [CHR 0x22] @ rangeToUse ver rng @ [CHR 0x22]) w1 of
                (Inl e, w2) \<Rightarrow> (Inl e, w2)
              | (Inr u2, w2) \<Rightarrow>
                  (case patchFile (resolve node (path p) ''yarn.lock'')
                          (depName @ ''@'' @ ver)
                          (depName @ ''@'' @ rangeToUse ver rng) w2 of
                     (Inl e, w3) \<Rightarrow> (Inl e, w3)
                   | (Inr u3, w3) \<Rightarrow> removeExtraneousNodeModules drv node p w3)))"

fun is_install :: "call \<Rightarrow> bool" where
  "is_install (InstallInDir dir extraArgs useAdd) = True"
| "is_install c = False"

subsection \<open>Example inputs\<close>

text \<open>
  An instance of the Node functions that joins a directory and a plain relative name with
  a slash, and that knows the relative path between the two example directories, in its
  POSIX form and in its Windows form.
\<close>

definition example_inherited_text :: "string \<Rightarrow> string" where
  "example_inherited_text k =
     (if k = ''__proto__'' then ''[object Object]''
      else if k = ''constructor'' then ''function Object() { [native code] }''
      else ''function '' @ k @ ''() { [native code] }'')"

definition example_inspect :: "json_value \<Rightarrow> string" where
  "example_inspect v =
     (case v of
        JNum n \<Rightarrow> string_of_nat (nat n)
      | JBool b \<Rightarrow> (if b then ''true'' else ''false'')
      | _ \<Rightarrow> ''[value]'')"

definition posix_node :: node_lib where
  "posix_node =
     \<lparr> resolve = (\<lambda>dir file. dir @ ''/'' @ file),
       relative = (\<lambda>from to. if from = ''/ws/app'' \<and> to = ''/ws/libs/lib'' then ''../libs/lib'' else to),
       inspect = example_inspect,
       inherited_text = example_inherited_text \<rparr>"


definition empty_json :: IPackageJson where
  "empty_json =
     \<lparr> pj_name = ''pkg'', pj_version = Some ''1.0.0'', pj_dependencies = None,
       pj_devDependencies = None, pj_scripts = None, pj_bin = None, pj_workspaces = None,
       pj_osd_pm = None \<rparr>"

definition app_json :: IPackageJson where
  "app_json = empty_json
     \<lparr> pj_name := ''app'',
       pj_dependencies := Some [(''lib'', ''link:../libs/lib''), (''lodash'', ''^4.17.21'')],
       pj_devDependencies := Some [(''lodash'', ''^3.0.0''), (''jest'', ''^26.0.0'')],
       pj_osd_pm := Some [(''web'', JBool True), (''browser'', JBool False), (''node'', JNum 1)] \<rparr>"

definition app_json_reordered :: IPackageJson where
  "app_json_reordered = app_json
     \<lparr> pj_osd_pm := Some [(''node'', JNum 1), (''web'', JBool True), (''browser'', JBool False)] \<rparr>"

definition lib_json :: IPackageJson where
  "lib_json = empty_json \<lparr> pj_name := ''lib'', pj_version := Some ''2.3.4'' \<rparr>"

text \<open>
  A manifest without a version, a manifest that declares lib by a link with another path,
  a package named like a member of \<open>Object.prototype\<close>, and a helper behaviour that answers, for a value that is not a string, that it is not a
  link.
\<close>

definition tool_json :: IPackageJson where
  "tool_json = empty_json \<lparr> pj_name := ''tool'', pj_version := None \<rparr>"

definition app_wrong_link_json :: IPackageJson where
  "app_wrong_link_json = app_json \<lparr> pj_dependencies := Some [(''lib'', ''link:../lib'')] \<rparr>"

definition constructor_json :: IPackageJson where
  "constructor_json = empty_json \<lparr> pj_name := ''constructor'' \<rparr>"

definition not_a_link :: "js_value \<Rightarrow> error + bool" where
  "not_a_link v = Inr False"

definition example_targets :: "string list" where
  "example_targets = [''node'', ''web'', ''browser'']"

definition app_registry_json :: IPackageJson where
  "app_registry_json = app_json \<lparr> pj_dependencies := Some [(''lib'', ''^1.0.0'')] \<rparr>"

definition foo_json :: "json_value option \<Rightarrow> IPackageJson" where
  "foo_json b = empty_json \<lparr> pj_name := ''foo'', pj_bin := b \<rparr>"

definition foo :: "json_value option \<Rightarrow> Project" where
  "foo b = new_Project posix_node example_targets (foo_json b) ''/ws/foo''"

text \<open>
  A driver whose install leaves the files as they are and whose workspace query answers
  the given membership info; the root of a workspace with the members a, b and c, of which
  only a depends on b; and the files after yarn has added lodash 4.17.21 to the app, with
  two occurrences of each search text and, in the manifest, one of \<open>lodash@4.17.21\<close>.
\<close>

definition quiet_driver :: "(string \<times> string list) list \<Rightarrow> driver" where
  "quiet_driver info =
     \<lparr> drv_installInDir = (\<lambda>dir extraArgs useAdd fs. Inr fs),
       drv_yarnWorkspacesInfo = (\<lambda>dir fs. Inr info) \<rparr>"

definition abc_info :: "(string \<times> string list) list" where
  "abc_info = [(''a'', [''b'']), (''b'', []), (''c'', [])]"



definition abc_world :: world where
  "abc_world =
     \<lparr> files = [''/ws/node_modules/a'' \<mapsto> ''link'', ''/ws/node_modules/b'' \<mapsto> ''link'',
                ''/ws/node_modules/c'' \<mapsto> ''link''],
       calls = [] \<rparr>"

definition app_project :: Project where
  "app_project = new_Project posix_node example_targets app_json ''/ws/app''"

definition lodash_manifest :: string where
  "lodash_manifest =
     ''{'' @ [CHR 0x22] @ ''lodash'' @ [CHR 0x22] @ '': '' @ [CHR 0x22] @ ''4.17.21'' @ [CHR 0x22] @
     '', '' @ [CHR 0x22] @ ''x'' @ [CHR 0x22] @ '': '' @ [CHR 0x22] @ ''lodash@4.17.21'' @ [CHR 0x22] @
     '', '' @ [CHR 0x22] @ ''lodash'' @ [CHR 0x22] @ '': '' @ [CHR 0x22] @ ''4.17.21'' @ [CHR 0x22] @ ''}''"

definition lodash_manifest_patched :: string where
  "lodash_manifest_patched =
     ''{'' @ [CHR 0x22] @ ''lodash'' @ [CHR 0x22] @ '': '' @ [CHR 0x22] @ ''^4.17.21'' @ [CHR 0x22] @
     '', '' @ [CHR 0x22] @ ''x'' @ [CHR 0x22] @ '': '' @ [CHR 0x22] @ ''lodash@4.17.21'' @ [CHR 0x22] @
     '', '' @ [CHR 0x22] @ ''lodash'' @ [CHR 0x22] @ '': '' @ [CHR 0x22] @ ''^4.17.21'' @ [CHR 0x22] @ ''}''"

definition lodash_lock :: string where
  "lodash_lock = ''lodash@4.17.21, lodash@^3.0.0, lodash@4.17.21:''"

definition lodash_lock_patched :: string where
  "lodash_lock_patched = ''lodash@^4.17.21, lodash@^3.0.0, lodash@^4.17.21:''"

definition lodash_world :: world where
  "lodash_world =
     \<lparr> files = [''/ws/app/package.json'' \<mapsto> lodash_manifest, ''/ws/app/yarn.lock'' \<mapsto> lodash_lock],
       calls = [] \<rparr>"

text \<open>The driver call that \<open>installDependencyVersion\<close> starts with.\<close>

definition install_call :: "Project \<Rightarrow> string \<Rightarrow> string \<Rightarrow> bool \<Rightarrow> call" where
  "install_call p depName ver dev =
     (if isWorkspaceProject p then InstallInDir (path p) None None
      else InstallInDir (path p)
             (Some ([depName @ ''@'' @ ver] @ (if dev then [''--dev''] else []))) (Some True))"

definition member_project :: Project where
  "member_project = app_project\<lparr>isWorkspaceProject := True\<rparr>"

section \<open>Properties of the constructor\<close>

lemma get_prop_set_prop: "get_prop (set_prop k v obj) = (get_prop obj)(k \<mapsto> v)"
  by (rule ext) (simp add: get_prop_def set_prop_def update_conv')

lemma get_prop_copy_keys:
  "get_prop (copy_keys source ks target) k =
     (if k \<in> set ks \<and> get_prop source k \<noteq> None then get_prop source k else get_prop target k)"
proof (induction ks arbitrary: target)
  case Nil
  show ?case by simp
next
  case (Cons a ks)
  show ?case
    by (cases "get_prop source a") (auto simp: Cons.IH get_prop_set_prop)
qed

lemma get_prop_eq_None_iff: "get_prop obj k = None \<longleftrightarrow> k \<notin> set (object_keys obj)"
  by (simp add: get_prop_def object_keys_def map_of_eq_None_iff)

lemma get_prop_spread:
  "get_prop (spread target source) k =
     (case get_prop source k of None \<Rightarrow> get_prop target k | Some v \<Rightarrow> Some v)"
proof (cases "get_prop source k")
  case None
  then show ?thesis by (simp add: spread_def get_prop_copy_keys)
next
  case (Some v)
  then have "k \<in> set (object_keys source)"
    using get_prop_eq_None_iff [of source k] by simp
  with Some show ?thesis by (simp add: spread_def get_prop_copy_keys)
qed

lemma get_prop_Nil: "get_prop [] k = None"
  by (simp add: get_prop_def)

lemma push_targets_filter:
  "push_targets defs ts acc = acc @ filter (\<lambda>t. truthy_prop (get_prop defs t)) ts"
  by (induction ts arbitrary: acc) simp_all

text \<open>
  C6: when dependencies and devDependencies both declare a key, allDependencies holds the
  value from dependencies; a key declared in only one of the two keeps its declared value.
\<close>

theorem allDependencies_production_wins:
  "(get_prop (or_empty (pj_dependencies pj)) k = Some v \<and>
      get_prop (or_empty (pj_devDependencies pj)) k = Some v' \<longrightarrow>
        get_prop (allDependencies (new_Project node bts pj dir)) k = Some v) \<and>
   (get_prop (or_empty (pj_dependencies pj)) k = Some v \<and>
      get_prop (or_empty (pj_devDependencies pj)) k = None \<longrightarrow>
        get_prop (allDependencies (new_Project node bts pj dir)) k = Some v) \<and>
   (get_prop (or_empty (pj_dependencies pj)) k = None \<and>
      get_prop (or_empty (pj_devDependencies pj)) k = Some v' \<longrightarrow>
        get_prop (allDependencies (new_Project node bts pj dir)) k = Some v')"
  by (simp add: new_Project_def Let_def get_prop_spread get_prop_Nil)

theorem allDependencies_production_wins_witness:
  "get_prop (allDependencies (new_Project posix_node example_targets app_json ''/ws/app'')) ''lodash''
     = Some ''^4.17.21'' \<and>
   get_prop (allDependencies (new_Project posix_node example_targets app_json ''/ws/app'')) ''lib''
     = Some ''link:../libs/lib'' \<and>
   get_prop (allDependencies (new_Project posix_node example_targets app_json ''/ws/app'')) ''jest''
     = Some ''^26.0.0''"
proof -
  have deps: "pj_dependencies app_json = Some [(''lib'', ''link:../libs/lib''), (''lodash'', ''^4.17.21'')]"
    and devs: "pj_devDependencies app_json = Some [(''lodash'', ''^3.0.0''), (''jest'', ''^26.0.0'')]"
    by (simp_all add: app_json_def empty_json_def)
  show ?thesis
    using allDependencies_production_wins
            [of app_json "''lodash''" "''^4.17.21''" "''^3.0.0''" posix_node example_targets "''/ws/app''"]
          allDependencies_production_wins
            [of app_json "''lib''" "''link:../libs/lib''" "''^3.0.0''" posix_node example_targets "''/ws/app''"]
          allDependencies_production_wins
            [of app_json "''jest''" "''^4.17.21''" "''^26.0.0''" posix_node example_targets "''/ws/app''"]
    by (simp add: deps devs get_prop_def)
qed

lemma get_prop_cong_set:
  assumes "distinct (object_keys xs)" "distinct (object_keys ys)" "set xs = set ys"
  shows "get_prop xs = get_prop ys"
  using assms unfolding get_prop_def object_keys_def
  by (simp add: map_of_inject_set)

text \<open>
  C7: buildTargets holds exactly the members of the build-target enumeration whose key in
  the custom-definitions block is truthy, in the order of the enumeration; a block with the
  same entries in another key order gives the same list.
\<close>

theorem buildTargets_enumeration_order:
  "buildTargets (new_Project node BuildTargets pj dir) =
     filter (\<lambda>t. truthy_prop (get_prop (customDefinitions (new_Project node BuildTargets pj dir)) t))
       BuildTargets \<and>
   customDefinitions (new_Project node BuildTargets pj dir) = or_empty (pj_osd_pm pj) \<and>
   (distinct (object_keys (or_empty (pj_osd_pm pj))) \<and>
    distinct (object_keys (or_empty (pj_osd_pm pj'))) \<and>
    set (or_empty (pj_osd_pm pj')) = set (or_empty (pj_osd_pm pj)) \<longrightarrow>
      buildTargets (new_Project node BuildTargets pj' dir') =
      buildTargets (new_Project node BuildTargets pj dir))"
proof (intro conjI impI)
  show "buildTargets (new_Project node BuildTargets pj dir) =
     filter (\<lambda>t. truthy_prop (get_prop (customDefinitions (new_Project node BuildTargets pj dir)) t))
       BuildTargets"
    by (simp add: new_Project_def Let_def push_targets_filter)
  show "customDefinitions (new_Project node BuildTargets pj dir) = or_empty (pj_osd_pm pj)"
    by (simp add: new_Project_def Let_def)
next
  assume a: "distinct (object_keys (or_empty (pj_osd_pm pj))) \<and>
    distinct (object_keys (or_empty (pj_osd_pm pj'))) \<and>
    set (or_empty (pj_osd_pm pj')) = set (or_empty (pj_osd_pm pj))"
  then have "get_prop (or_empty (pj_osd_pm pj')) = get_prop (or_empty (pj_osd_pm pj))"
    by (intro get_prop_cong_set) simp_all
  then show "buildTargets (new_Project node BuildTargets pj' dir') =
      buildTargets (new_Project node BuildTargets pj dir)"
    by (simp add: new_Project_def Let_def push_targets_filter)
qed

theorem buildTargets_enumeration_order_witness:
  "buildTargets (new_Project posix_node example_targets app_json ''/ws/app'') = [''node'', ''web''] \<and>
   distinct (object_keys (or_empty (pj_osd_pm app_json))) \<and>
   distinct (object_keys (or_empty (pj_osd_pm app_json_reordered))) \<and>
   set (or_empty (pj_osd_pm app_json_reordered)) = set (or_empty (pj_osd_pm app_json)) \<and>
   buildTargets (new_Project posix_node example_targets app_json_reordered ''/ws/app'') = [''node'', ''web'']"
proof -
  have defs: "pj_osd_pm app_json = Some [(''web'', JBool True), (''browser'', JBool False), (''node'', JNum 1)]"
    and defs': "pj_osd_pm app_json_reordered =
                  Some [(''node'', JNum 1), (''web'', JBool True), (''browser'', JBool False)]"
    by (simp_all add: app_json_reordered_def app_json_def empty_json_def)
  have s: "set (or_empty (pj_osd_pm app_json_reordered)) = set (or_empty (pj_osd_pm app_json))"
    by (auto simp: defs defs')
  have d: "distinct (object_keys (or_empty (pj_osd_pm app_json)))"
          "distinct (object_keys (or_empty (pj_osd_pm app_json_reordered)))"
    by (simp_all add: defs defs' object_keys_def)
  have v: "buildTargets (new_Project posix_node example_targets app_json ''/ws/app'') = [''node'', ''web'']"
    using buildTargets_enumeration_order
            [of posix_node example_targets app_json "''/ws/app''" app_json_reordered "''/ws/app''"]
    by (simp add: defs example_targets_def get_prop_def)
  from buildTargets_enumeration_order
         [of posix_node example_targets app_json "''/ws/app''" app_json_reordered "''/ws/app''"]
       s d v
  show ?thesis by simp
qed

section \<open>Properties of the dependency validator\<close>





lemma read_prop_None:
  "get_prop obj k = None \<Longrightarrow>
   read_prop obj k = (if k \<in> set object_prototype_names then Inherited k else Undefined)"
  by (simp add: read_prop_def)

lemma ensureValidProjectDependency_Inr:
  "(ensureValidProjectDependency node nonString this project flag = Inr ()) =
     (read_prop (allDependencies this) (Project_name project) =
        expectedVersionInPackageJson node this project flag)"
  by (simp add: ensureValidProjectDependency_def Let_def split: sum.splits)



text \<open>
  C4: when the value read for the dependency's name differs from the expected value and
  \<open>isLinkDependency\<close> answers, the call fails with a CliError. Its message names the
  dependent and the dependency and carries the workspace text when the declaration is a
  link and the dependent is in the workspace, the wrong-path text when it is a link and
  the dependent is not, and the not-local text when it is not a link. Its metadata holds
  the actual and the expected declaration as manifest fragments, in double quotes, and the
  dependent's name and manifest location. For a declared string the answer of
  \<open>isLinkDependency\<close> is whether the string begins with \<open>link:\<close>.
\<close>

theorem ensureValidProjectDependency_mismatch:
  assumes "read_prop (allDependencies this) (Project_name project) \<noteq>
             expectedVersionInPackageJson node this project flag"
      and "isLinkDependency nonString (read_prop (allDependencies this) (Project_name project)) =
             Inr isLink"
  shows "ensureValidProjectDependency node nonString this project flag =
           Inl (CliError
             (''['' @ Project_name this @ ''] depends on ['' @ Project_name project @ ''] '' @
                (if isLink \<and> flag then ''but should be using a workspace''
                 else if isLink then
                   ''using '' @ [CHR 0x27] @ ''link:'' @ [CHR 0x27] @ '', but the path is wrong''
                 else ''but it'' @ [CHR 0x27] @ ''s not using the local package'') @
                ''. Update its package.json to the expected value below.'')
             [(''actual'', [CHR 0x22] @ Project_name project @ [CHR 0x22] @ '': '' @ [CHR 0x22] @
                 template_string node (read_prop (allDependencies this) (Project_name project)) @
                 [CHR 0x22]),
              (''expected'', [CHR 0x22] @ Project_name project @ [CHR 0x22] @ '': '' @ [CHR 0x22] @
                 template_string node (expectedVersionInPackageJson node this project flag) @
                 [CHR 0x22]),
              (''package'', Project_name this @ '' ('' @ packageJsonLocation this @ '')'')]) \<and>
         (read_prop (allDependencies this) (Project_name project) = Str declared \<longrightarrow>
            isLink = prefix ''link:'' declared \<and>
            template_string node (read_prop (allDependencies this) (Project_name project)) = declared)"
  using assms
  by (auto simp: ensureValidProjectDependency_def Let_def problemMsg_def)

lemma example_reads:
  "read_prop (allDependencies (new_Project posix_node example_targets app_registry_json ''/ws/app''))
     ''lib'' = Str ''^1.0.0''"
  "read_prop (allDependencies (new_Project posix_node example_targets app_wrong_link_json ''/ws/app''))
     ''lib'' = Str ''link:../lib''"
  "read_prop (allDependencies (new_Project posix_node example_targets app_json ''/ws/app''))
     ''lib'' = Str ''link:../libs/lib''"
  "read_prop (allDependencies (new_Project posix_node example_targets app_json ''/ws/app''))
     ''tool'' = Undefined"
  "read_prop (allDependencies (new_Project posix_node example_targets lib_json ''/ws/libs/lib''))
     k = (if k \<in> set object_prototype_names then Inherited k else Undefined)"
  by (simp_all add: new_Project_def Let_def app_registry_json_def app_wrong_link_json_def
        app_json_def lib_json_def empty_json_def spread_def object_keys_def get_prop_def
        set_prop_def read_prop_def object_prototype_names_def)

lemma example_fields:
  "Project_name (new_Project node bts app_registry_json dir) = ''app''"
  "Project_name (new_Project node bts app_wrong_link_json dir) = ''app''"
  "Project_name (new_Project node bts app_json dir) = ''app''"
  "Project_name (new_Project node bts lib_json dir) = ''lib''"
  "Project_name (new_Project node bts tool_json dir) = ''tool''"
  "Project_name (new_Project node bts constructor_json dir) = ''constructor''"
  "pj_version (json (new_Project node bts lib_json dir)) = Some ''2.3.4''"
  "pj_version (json (new_Project node bts app_json dir)) = Some ''1.0.0''"
  "pj_version (json (new_Project node bts tool_json dir)) = None"
  "pj_version (json (new_Project node bts constructor_json dir)) = Some ''1.0.0''"
  "path (new_Project node bts pj dir) = dir"
  "packageJsonLocation (new_Project node bts pj dir) = resolve node dir ''package.json''"
  by (simp_all add: new_Project_def Let_def Project_name_def app_registry_json_def
        app_wrong_link_json_def app_json_def lib_json_def tool_json_def constructor_json_def
        empty_json_def)

lemma posix_node_fields:
  "resolve posix_node d f = d @ ''/'' @ f"
  "relative posix_node ''/ws/app'' ''/ws/libs/lib'' = ''../libs/lib''"
  "inherited_text posix_node ''constructor'' = ''function Object() { [native code] }''"
  by (simp_all add: posix_node_def example_inherited_text_def)

theorem ensureValidProjectDependency_mismatch_witness:
  "ensureValidProjectDependency posix_node not_a_link
     (new_Project posix_node example_targets app_registry_json ''/ws/app'')
     (new_Project posix_node example_targets lib_json ''/ws/libs/lib'') False =
   Inl (CliError
     (''[app] depends on [lib] but it'' @ [CHR 0x27] @
        ''s not using the local package. Update its package.json to the expected value below.'')
     [(''actual'', [CHR 0x22] @ ''lib'' @ [CHR 0x22] @ '': '' @ [CHR 0x22] @ ''^1.0.0'' @ [CHR 0x22]),
      (''expected'', [CHR 0x22] @ ''lib'' @ [CHR 0x22] @ '': '' @
         [CHR 0x22] @ ''link:../libs/lib'' @ [CHR 0x22]),
      (''package'', ''app (/ws/app/package.json)'')]) \<and>
   ensureValidProjectDependency posix_node not_a_link
     (new_Project posix_node example_targets app_wrong_link_json ''/ws/app'')
     (new_Project posix_node example_targets lib_json ''/ws/libs/lib'') False =
   Inl (CliError
     (''[app] depends on [lib] using '' @ [CHR 0x27] @ ''link:'' @ [CHR 0x27] @
        '', but the path is wrong. Update its package.json to the expected value below.'')
     [(''actual'', [CHR 0x22] @ ''lib'' @ [CHR 0x22] @ '': '' @ [CHR 0x22] @ ''link:../lib'' @ [CHR 0x22]),
      (''expected'', [CHR 0x22] @ ''lib'' @ [CHR 0x22] @ '': '' @
         [CHR 0x22] @ ''link:../libs/lib'' @ [CHR 0x22]),
      (''package'', ''app (/ws/app/package.json)'')]) \<and>
   ensureValidProjectDependency posix_node not_a_link
     (new_Project posix_node example_targets app_json ''/ws/app'')
     (new_Project posix_node example_targets lib_json ''/ws/libs/lib'') True =
   Inl (CliError
     ''[app] depends on [lib] but should be using a workspace. Update its package.json to the expected value below.''
     [(''actual'', [CHR 0x22] @ ''lib'' @ [CHR 0x22] @ '': '' @
         [CHR 0x22] @ ''link:../libs/lib'' @ [CHR 0x22]),
      (''expected'', [CHR 0x22] @ ''lib'' @ [CHR 0x22] @ '': '' @ [CHR 0x22] @ ''2.3.4'' @ [CHR 0x22]),
      (''package'', ''app (/ws/app/package.json)'')])"
proof (intro conjI)
  let ?lib = "new_Project posix_node example_targets lib_json ''/ws/libs/lib''"
  let ?a1 = "new_Project posix_node example_targets app_registry_json ''/ws/app''"
  let ?a2 = "new_Project posix_node example_targets app_wrong_link_json ''/ws/app''"
  let ?a3 = "new_Project posix_node example_targets app_json ''/ws/app''"
  have h1: "read_prop (allDependencies ?a1) (Project_name ?lib) \<noteq>
              expectedVersionInPackageJson posix_node ?a1 ?lib False"
    by (simp add: example_reads example_fields expectedVersionInPackageJson_def)
  have l1: "isLinkDependency not_a_link (read_prop (allDependencies ?a1) (Project_name ?lib)) = Inr False"
    by (simp add: example_reads example_fields)
  show "ensureValidProjectDependency posix_node not_a_link ?a1 ?lib False =
   Inl (CliError
     (''[app] depends on [lib] but it'' @ [CHR 0x27] @
        ''s not using the local package. Update its package.json to the expected value below.'')
     [(''actual'', [CHR 0x22] @ ''lib'' @ [CHR 0x22] @ '': '' @ [CHR 0x22] @ ''^1.0.0'' @ [CHR 0x22]),
      (''expected'', [CHR 0x22] @ ''lib'' @ [CHR 0x22] @ '': '' @
         [CHR 0x22] @ ''link:../libs/lib'' @ [CHR 0x22]),
      (''package'', ''app (/ws/app/package.json)'')])"
    using ensureValidProjectDependency_mismatch [OF h1 l1, of "''^1.0.0''"]
    by (simp add: example_reads example_fields expectedVersionInPackageJson_def
          posix_node_fields isSep_def)
  have h2: "read_prop (allDependencies ?a2) (Project_name ?lib) \<noteq>
              expectedVersionInPackageJson posix_node ?a2 ?lib False"
    by (simp add: example_reads example_fields expectedVersionInPackageJson_def
          posix_node_fields isSep_def)
  have l2: "isLinkDependency not_a_link (read_prop (allDependencies ?a2) (Project_name ?lib)) = Inr True"
    by (simp add: example_reads example_fields)
  show "ensureValidProjectDependency posix_node not_a_link ?a2 ?lib False =
   Inl (CliError
     (''[app] depends on [lib] using '' @ [CHR 0x27] @ ''link:'' @ [CHR 0x27] @
        '', but the path is wrong. Update its package.json to the expected value below.'')
     [(''actual'', [CHR 0x22] @ ''lib'' @ [CHR 0x22] @ '': '' @ [CHR 0x22] @ ''link:../lib'' @ [CHR 0x22]),
      (''expected'', [CHR 0x22] @ ''lib'' @ [CHR 0x22] @ '': '' @
         [CHR 0x22] @ ''link:../libs/lib'' @ [CHR 0x22]),
      (''package'', ''app (/ws/app/package.json)'')])"
    using ensureValidProjectDependency_mismatch [OF h2 l2, of "''link:../lib''"]
    by (simp add: example_reads example_fields expectedVersionInPackageJson_def
          posix_node_fields isSep_def)
  have h3: "read_prop (allDependencies ?a3) (Project_name ?lib) \<noteq>
              expectedVersionInPackageJson posix_node ?a3 ?lib True"
    by (simp add: example_reads example_fields expectedVersionInPackageJson_def)
  have l3: "isLinkDependency not_a_link (read_prop (allDependencies ?a3) (Project_name ?lib)) = Inr True"
    by (simp add: example_reads example_fields)
  show "ensureValidProjectDependency posix_node not_a_link ?a3 ?lib True =
   Inl (CliError
     ''[app] depends on [lib] but should be using a workspace. Update its package.json to the expected value below.''
     [(''actual'', [CHR 0x22] @ ''lib'' @ [CHR 0x22] @ '': '' @
         [CHR 0x22] @ ''link:../libs/lib'' @ [CHR 0x22]),
      (''expected'', [CHR 0x22] @ ''lib'' @ [CHR 0x22] @ '': '' @ [CHR 0x22] @ ''2.3.4'' @ [CHR 0x22]),
      (''package'', ''app (/ws/app/package.json)'')])"
    using ensureValidProjectDependency_mismatch [OF h3 l3, of "''link:../libs/lib''"]
    by (simp add: example_reads example_fields expectedVersionInPackageJson_def
          posix_node_fields)
qed

lemma undeclared_get_prop:
  "\<not> declares deps name \<Longrightarrow> get_prop (or_empty deps) name = None"
  by (cases deps) (simp_all add: declares_def hasOwnProperty_def get_prop_eq_None_iff get_prop_Nil)

text \<open>
  C10, as the code has it: the dependent's manifest declares the dependency's name neither
  in dependencies nor in devDependencies. When the dependent is in the workspace, the
  dependency's manifest has no version and the name is not one that every object inherits,
  the value read and the expected value are both \<open>undefined\<close> and the call returns without
  error. In every other case the call fails. When the expected value is defined, the name
  is not an inherited one and \<open>isLinkDependency\<close> answers that \<open>undefined\<close> is not a link,
  the failure is the CliError with the not-local text and the actual value \<open>undefined\<close>.
  For a name that every object inherits, such as \<open>constructor\<close>, the value read is the
  inherited member, and the CliError reports that member's text as the actual value.
\<close>

theorem ensureValidProjectDependency_undeclared:
  assumes "\<not> declares (pj_dependencies pj) (Project_name project)"
      and "\<not> declares (pj_devDependencies pj) (Project_name project)"
      and "this = (new_Project node bts pj dir)\<lparr>isWorkspaceRoot := r, isWorkspaceProject := m\<rparr>"
  shows "(flag \<and> pj_version (json project) = None \<and>
          Project_name project \<notin> set object_prototype_names \<longrightarrow>
            ensureValidProjectDependency node nonString this project flag = Inr ()) \<and>
         (\<not> flag \<or> pj_version (json project) \<noteq> None \<or>
          Project_name project \<in> set object_prototype_names \<longrightarrow>
            (\<exists>e. ensureValidProjectDependency node nonString this project flag = Inl e)) \<and>
         ((\<not> flag \<or> pj_version (json project) \<noteq> None) \<and>
          Project_name project \<notin> set object_prototype_names \<and>
          nonString Undefined = Inr False \<longrightarrow>
            ensureValidProjectDependency node nonString this project flag =
              Inl (CliError
                (''['' @ pj_name pj @ ''] depends on ['' @ Project_name project @ ''] '' @
                   ''but it'' @ [CHR 0x27] @ ''s not using the local package'' @
                   ''. Update its package.json to the expected value below.'')
                [(''actual'', [CHR 0x22] @ Project_name project @ [CHR 0x22] @ '': '' @
                    [CHR 0x22] @ ''undefined'' @ [CHR 0x22]),
                 (''expected'', [CHR 0x22] @ Project_name project @ [CHR 0x22] @ '': '' @ [CHR 0x22] @
                    template_string node (expectedVersionInPackageJson node this project flag) @
                    [CHR 0x22]),
                 (''package'', pj_name pj @ '' ('' @ resolve node dir ''package.json'' @ '')'')])) \<and>
         (Project_name project \<in> set object_prototype_names \<and>
          nonString (Inherited (Project_name project)) = Inr False \<longrightarrow>
            ensureValidProjectDependency node nonString this project flag =
              Inl (CliError
                (''['' @ pj_name pj @ ''] depends on ['' @ Project_name project @ ''] '' @
                   ''but it'' @ [CHR 0x27] @ ''s not using the local package'' @
                   ''. Update its package.json to the expected value below.'')
                [(''actual'', [CHR 0x22] @ Project_name project @ [CHR 0x22] @ '': '' @
                    [CHR 0x22] @ inherited_text node (Project_name project) @ [CHR 0x22]),
                 (''expected'', [CHR 0x22] @ Project_name project @ [CHR 0x22] @ '': '' @ [CHR 0x22] @
                    template_string node (expectedVersionInPackageJson node this project flag) @
                    [CHR 0x22]),
                 (''package'', pj_name pj @ '' ('' @ resolve node dir ''package.json'' @ '')'')]))"
proof -
  have "get_prop (allDependencies this) (Project_name project) = None"
    using assms
    by (simp add: new_Project_def Let_def get_prop_spread get_prop_Nil undeclared_get_prop)
  then have rd: "read_prop (allDependencies this) (Project_name project) =
      (if Project_name project \<in> set object_prototype_names then Inherited (Project_name project)
       else Undefined)"
    by (rule read_prop_None)
  have nm: "Project_name this = pj_name pj"
           "packageJsonLocation this = resolve node dir ''package.json''"
    using assms(3) by (simp_all add: Project_name_def new_Project_def Let_def)
  have ex: "expectedVersionInPackageJson node this project flag \<noteq> Inherited k" for k
    by (cases "pj_version (json project)") (simp_all add: expectedVersionInPackageJson_def)
  have c1: "flag \<and> pj_version (json project) = None \<and>
          Project_name project \<notin> set object_prototype_names \<longrightarrow>
            ensureValidProjectDependency node nonString this project flag = Inr ()"
    by (simp add: ensureValidProjectDependency_Inr rd expectedVersionInPackageJson_def)
  have ne: "\<not> flag \<or> pj_version (json project) \<noteq> None \<or>
          Project_name project \<in> set object_prototype_names \<Longrightarrow>
          read_prop (allDependencies this) (Project_name project) \<noteq>
            expectedVersionInPackageJson node this project flag"
    using ex [of "Project_name project"]
    by (cases "pj_version (json project)") (auto simp: rd expectedVersionInPackageJson_def)
  have c2: "\<not> flag \<or> pj_version (json project) \<noteq> None \<or>
          Project_name project \<in> set object_prototype_names \<longrightarrow>
            (\<exists>e. ensureValidProjectDependency node nonString this project flag = Inl e)"
  proof
    assume "\<not> flag \<or> pj_version (json project) \<noteq> None \<or>
          Project_name project \<in> set object_prototype_names"
    then have "ensureValidProjectDependency node nonString this project flag \<noteq> Inr ()"
      using ne by (simp add: ensureValidProjectDependency_Inr)
    then show "\<exists>e. ensureValidProjectDependency node nonString this project flag = Inl e"
      by (cases "ensureValidProjectDependency node nonString this project flag") simp_all
  qed
  have c3: "(\<not> flag \<or> pj_version (json project) \<noteq> None) \<and>
          Project_name project \<notin> set object_prototype_names \<and>
          nonString Undefined = Inr False \<longrightarrow>
            ensureValidProjectDependency node nonString this project flag =
              Inl (CliError
                (''['' @ pj_name pj @ ''] depends on ['' @ Project_name project @ ''] '' @
                   ''but it'' @ [CHR 0x27] @ ''s not using the local package'' @
                   ''. Update its package.json to the expected value below.'')
                [(''actual'', [CHR 0x22] @ Project_name project @ [CHR 0x22] @ '': '' @
                    [CHR 0x22] @ ''undefined'' @ [CHR 0x22]),
                 (''expected'', [CHR 0x22] @ Project_name project @ [CHR 0x22] @ '': '' @ [CHR 0x22] @
                    template_string node (expectedVersionInPackageJson node this project flag) @
                    [CHR 0x22]),
                 (''package'', pj_name pj @ '' ('' @ resolve node dir ''package.json'' @ '')'')])"
  proof
    assume a: "(\<not> flag \<or> pj_version (json project) \<noteq> None) \<and>
          Project_name project \<notin> set object_prototype_names \<and>
          nonString Undefined = Inr False"
    then have u: "read_prop (allDependencies this) (Project_name project) = Undefined"
      by (simp add: rd)
    have "Undefined \<noteq> expectedVersionInPackageJson node this project flag"
      using ne a u by auto
    with a u show "ensureValidProjectDependency node nonString this project flag =
              Inl (CliError
                (''['' @ pj_name pj @ ''] depends on ['' @ Project_name project @ ''] '' @
                   ''but it'' @ [CHR 0x27] @ ''s not using the local package'' @
                   ''. Update its package.json to the expected value below.'')
                [(''actual'', [CHR 0x22] @ Project_name project @ [CHR 0x22] @ '': '' @
                    [CHR 0x22] @ ''undefined'' @ [CHR 0x22]),
                 (''expected'', [CHR 0x22] @ Project_name project @ [CHR 0x22] @ '': '' @ [CHR 0x22] @
                    template_string node (expectedVersionInPackageJson node this project flag) @
                    [CHR 0x22]),
                 (''package'', pj_name pj @ '' ('' @ resolve node dir ''package.json'' @ '')'')])"
      by (simp add: ensureValidProjectDependency_def Let_def problemMsg_def nm)
  qed
  have c4: "Project_name project \<in> set object_prototype_names \<and>
          nonString (Inherited (Project_name project)) = Inr False \<longrightarrow>
            ensureValidProjectDependency node nonString this project flag =
              Inl (CliError
                (''['' @ pj_name pj @ ''] depends on ['' @ Project_name project @ ''] '' @
                   ''but it'' @ [CHR 0x27] @ ''s not using the local package'' @
                   ''. Update its package.json to the expected value below.'')
                [(''actual'', [CHR 0x22] @ Project_name project @ [CHR 0x22] @ '': '' @
                    [CHR 0x22] @ inherited_text node (Project_name project) @ [CHR 0x22]),
                 (''expected'', [CHR 0x22] @ Project_name project @ [CHR 0x22] @ '': '' @ [CHR 0x22] @
                    template_string node (expectedVersionInPackageJson node this project flag) @
                    [CHR 0x22]),
                 (''package'', pj_name pj @ '' ('' @ resolve node dir ''package.json'' @ '')'')])"
  proof
    assume a: "Project_name project \<in> set object_prototype_names \<and>
          nonString (Inherited (Project_name project)) = Inr False"
    then have u: "read_prop (allDependencies this) (Project_name project) =
                    Inherited (Project_name project)"
      by (simp add: rd)
    have "Inherited (Project_name project) \<noteq> expectedVersionInPackageJson node this project flag"
      using ex [of "Project_name project"] by metis
    with a u show "ensureValidProjectDependency node nonString this project flag =
              Inl (CliError
                (''['' @ pj_name pj @ ''] depends on ['' @ Project_name project @ ''] '' @
                   ''but it'' @ [CHR 0x27] @ ''s not using the local package'' @
                   ''. Update its package.json to the expected value below.'')
                [(''actual'', [CHR 0x22] @ Project_name project @ [CHR 0x22] @ '': '' @
                    [CHR 0x22] @ inherited_text node (Project_name project) @ [CHR 0x22]),
                 (''expected'', [CHR 0x22] @ Project_name project @ [CHR 0x22] @ '': '' @ [CHR 0x22] @
                    template_string node (expectedVersionInPackageJson node this project flag) @
                    [CHR 0x22]),
                 (''package'', pj_name pj @ '' ('' @ resolve node dir ''package.json'' @ '')'')])"
      by (simp add: ensureValidProjectDependency_def Let_def problemMsg_def nm)
  qed
  from c1 c2 c3 c4 show ?thesis by blast
qed

theorem ensureValidProjectDependency_undeclared_witness:
  "ensureValidProjectDependency posix_node not_a_link
     ((new_Project posix_node example_targets app_json ''/ws/app'')
        \<lparr>isWorkspaceRoot := False, isWorkspaceProject := True\<rparr>)
     (new_Project posix_node example_targets tool_json ''/ws/tool'') True = Inr () \<and>
   ensureValidProjectDependency posix_node not_a_link
     ((new_Project posix_node example_targets lib_json ''/ws/libs/lib'')
        \<lparr>isWorkspaceRoot := False, isWorkspaceProject := True\<rparr>)
     (new_Project posix_node example_targets app_json ''/ws/app'') True =
   Inl (CliError
     (''[lib] depends on [app] but it'' @ [CHR 0x27] @
        ''s not using the local package. Update its package.json to the expected value below.'')
     [(''actual'', [CHR 0x22] @ ''app'' @ [CHR 0x22] @ '': '' @ [CHR 0x22] @ ''undefined'' @ [CHR 0x22]),
      (''expected'', [CHR 0x22] @ ''app'' @ [CHR 0x22] @ '': '' @ [CHR 0x22] @ ''1.0.0'' @ [CHR 0x22]),
      (''package'', ''lib (/ws/libs/lib/package.json)'')]) \<and>
   ensureValidProjectDependency posix_node not_a_link
     ((new_Project posix_node example_targets lib_json ''/ws/libs/lib'')
        \<lparr>isWorkspaceRoot := False, isWorkspaceProject := True\<rparr>)
     (new_Project posix_node example_targets constructor_json ''/ws/constructor'') True =
   Inl (CliError
     (''[lib] depends on [constructor] but it'' @ [CHR 0x27] @
        ''s not using the local package. Update its package.json to the expected value below.'')
     [(''actual'', [CHR 0x22] @ ''constructor'' @ [CHR 0x22] @ '': '' @
         [CHR 0x22] @ ''function Object() { [native code] }'' @ [CHR 0x22]),
      (''expected'', [CHR 0x22] @ ''constructor'' @ [CHR 0x22] @ '': '' @
         [CHR 0x22] @ ''1.0.0'' @ [CHR 0x22]),
      (''package'', ''lib (/ws/libs/lib/package.json)'')])"
proof (intro conjI)
  let ?app = "new_Project posix_node example_targets app_json ''/ws/app''"
  let ?tool = "new_Project posix_node example_targets tool_json ''/ws/tool''"
  let ?con = "new_Project posix_node example_targets constructor_json ''/ws/constructor''"
  have a1: "\<not> declares (pj_dependencies app_json) (Project_name ?tool)"
   and a2: "\<not> declares (pj_devDependencies app_json) (Project_name ?tool)"
    by (simp_all add: declares_def app_json_def empty_json_def example_fields hasOwnProperty_def
          object_keys_def)
  show "ensureValidProjectDependency posix_node not_a_link
     (?app\<lparr>isWorkspaceRoot := False, isWorkspaceProject := True\<rparr>) ?tool True = Inr ()"
    using ensureValidProjectDependency_undeclared [OF a1 a2 refl,
            where node = posix_node and bts = example_targets and dir = "''/ws/app''"
              and r = False and m = True and flag = True and nonString = not_a_link]
    by (simp add: example_fields object_prototype_names_def)
  have b1: "\<not> declares (pj_dependencies lib_json) (Project_name ?app)"
   and b2: "\<not> declares (pj_devDependencies lib_json) (Project_name ?app)"
    by (simp_all add: declares_def lib_json_def empty_json_def)
  show "ensureValidProjectDependency posix_node not_a_link
     ((new_Project posix_node example_targets lib_json ''/ws/libs/lib'')
        \<lparr>isWorkspaceRoot := False, isWorkspaceProject := True\<rparr>) ?app True =
   Inl (CliError
     (''[lib] depends on [app] but it'' @ [CHR 0x27] @
        ''s not using the local package. Update its package.json to the expected value below.'')
     [(''actual'', [CHR 0x22] @ ''app'' @ [CHR 0x22] @ '': '' @ [CHR 0x22] @ ''undefined'' @ [CHR 0x22]),
      (''expected'', [CHR 0x22] @ ''app'' @ [CHR 0x22] @ '': '' @ [CHR 0x22] @ ''1.0.0'' @ [CHR 0x22]),
      (''package'', ''lib (/ws/libs/lib/package.json)'')])"
    using ensureValidProjectDependency_undeclared [OF b1 b2 refl,
            where node = posix_node and bts = example_targets and dir = "''/ws/libs/lib''"
              and r = False and m = True and flag = True and nonString = not_a_link]
    by (simp add: example_fields object_prototype_names_def not_a_link_def posix_node_fields
          expectedVersionInPackageJson_def lib_json_def empty_json_def)
  have c1: "\<not> declares (pj_dependencies lib_json) (Project_name ?con)"
   and c2: "\<not> declares (pj_devDependencies lib_json) (Project_name ?con)"
    by (simp_all add: declares_def lib_json_def empty_json_def)
  show "ensureValidProjectDependency posix_node not_a_link
     ((new_Project posix_node example_targets lib_json ''/ws/libs/lib'')
        \<lparr>isWorkspaceRoot := False, isWorkspaceProject := True\<rparr>) ?con True =
   Inl (CliError
     (''[lib] depends on [constructor] but it'' @ [CHR 0x27] @
        ''s not using the local package. Update its package.json to the expected value below.'')
     [(''actual'', [CHR 0x22] @ ''constructor'' @ [CHR 0x22] @ '': '' @
         [CHR 0x22] @ ''function Object() { [native code] }'' @ [CHR 0x22]),
      (''expected'', [CHR 0x22] @ ''constructor'' @ [CHR 0x22] @ '': '' @
         [CHR 0x22] @ ''1.0.0'' @ [CHR 0x22]),
      (''package'', ''lib (/ws/libs/lib/package.json)'')])"
    using ensureValidProjectDependency_undeclared [OF c1 c2 refl,
            where node = posix_node and bts = example_targets and dir = "''/ws/libs/lib''"
              and r = False and m = True and flag = True and nonString = not_a_link]
    by (simp add: example_fields object_prototype_names_def not_a_link_def posix_node_fields
          expectedVersionInPackageJson_def lib_json_def empty_json_def)
qed

text \<open>
  The app declares no dependency on the tool, whose manifest has no version: with the
  dependent in the workspace the call returns without error.
\<close>

theorem ensureValidProjectDependency_undeclared_counterexample:
  "\<not> declares (pj_dependencies app_json) ''tool'' \<and>
   \<not> declares (pj_devDependencies app_json) ''tool'' \<and>
   Project_name (new_Project posix_node example_targets tool_json ''/ws/tool'') = ''tool'' \<and>
   ensureValidProjectDependency posix_node not_a_link
     (new_Project posix_node example_targets app_json ''/ws/app'')
     (new_Project posix_node example_targets tool_json ''/ws/tool'') True = Inr ()"
proof (intro conjI)
  show "\<not> declares (pj_dependencies app_json) ''tool''"
    and "\<not> declares (pj_devDependencies app_json) ''tool''"
    by (simp_all add: declares_def hasOwnProperty_def object_keys_def app_json_def empty_json_def)
  show "Project_name (new_Project posix_node example_targets tool_json ''/ws/tool'') = ''tool''"
    by (simp add: example_fields)
  show "ensureValidProjectDependency posix_node not_a_link
     (new_Project posix_node example_targets app_json ''/ws/app'')
     (new_Project posix_node example_targets tool_json ''/ws/tool'') True = Inr ()"
    by (simp add: example_fields ensureValidProjectDependency_def Let_def example_reads
          expectedVersionInPackageJson_def)
qed

section \<open>Properties of getExecutables\<close>

lemma resolve_value_cases:
  "resolve_value node dir v =
     (case v of Some (JStr s) \<Rightarrow> Inr (resolve node dir s) | _ \<Rightarrow> Inl TypeError)"
  by (cases "(node, dir, v)" rule: resolve_value.cases) simp_all

lemma get_prop_map_JStr:
  "get_prop (map (\<lambda>(k, s). (k, JStr s)) bins) k = map_option JStr (get_prop bins k)"
  by (simp add: get_prop_def map_of_map)

lemma get_prop_assign_prop:
  "get_prop (assign_prop k v obj) =
     (if k = ''__proto__'' then get_prop obj else (get_prop obj)(k \<mapsto> v))"
  by (simp add: assign_prop_def get_prop_set_prop)

lemma binsConfig_loop_strings:
  assumes "raw = map (\<lambda>(k, s). (k, JStr s)) bins" and "set ks \<subseteq> set (object_keys bins)"
  shows "\<exists>res. binsConfig_loop node dir raw ks acc = Inr res \<and>
           (\<forall>k. get_prop res k =
              (if k \<in> set ks \<and> k \<noteq> ''__proto__''
               then map_option (resolve node dir) (get_prop bins k)
               else get_prop acc k))"
  using assms(2)
proof (induction ks arbitrary: acc)
  case Nil
  show ?case by simp
next
  case (Cons a ks)
  from Cons.prems have "a \<in> set (object_keys bins)" by simp
  then obtain s where s: "get_prop bins a = Some s"
    using get_prop_eq_None_iff [of bins a] by auto
  from Cons.prems have "set ks \<subseteq> set (object_keys bins)" by simp
  from Cons.IH [OF this, of "assign_prop a (resolve node dir s) acc"]
  obtain res where res: "binsConfig_loop node dir raw ks (assign_prop a (resolve node dir s) acc) = Inr res"
    and look: "\<And>k. get_prop res k =
              (if k \<in> set ks \<and> k \<noteq> ''__proto__''
               then map_option (resolve node dir) (get_prop bins k)
               else get_prop (assign_prop a (resolve node dir s) acc) k)"
    by blast
  have "binsConfig_loop node dir raw (a # ks) acc = Inr res"
    using res s by (simp add: assms(1) get_prop_map_JStr)
  moreover have "\<forall>k. get_prop res k =
              (if k \<in> set (a # ks) \<and> k \<noteq> ''__proto__''
               then map_option (resolve node dir) (get_prop bins k)
               else get_prop acc k)"
    using s by (simp add: look get_prop_assign_prop)
  ultimately show ?case by blast
qed

lemma binsConfig_loop_TypeError:
  assumes "k \<in> set ks" and "\<forall>s. get_prop raw k \<noteq> Some (JStr s)"
  shows "binsConfig_loop node dir raw ks acc = Inl TypeError"
  using assms(1)
proof (induction ks arbitrary: acc)
  case Nil
  then show ?case by simp
next
  case (Cons a ks)
  show ?case
  proof (cases "\<exists>s. get_prop raw a = Some (JStr s)")
    case True
    then obtain s where s: "get_prop raw a = Some (JStr s)" by blast
    with assms(2) have "a \<noteq> k" by auto
    with Cons.prems have "k \<in> set ks" by simp
    from Cons.IH [OF this] s show ?thesis by simp
  next
    case False
    then show ?thesis
      by (simp add: resolve_value_cases split: option.splits json_value.splits)
  qed
qed

lemma foo_fields:
  "pj_bin (json (foo b)) = b" "Project_name (foo b) = ''foo''" "path (foo b) = ''/ws/foo''"
  "packageJsonLocation (foo b) = ''/ws/foo/package.json''"
  by (simp_all add: foo_def foo_json_def empty_json_def new_Project_def Let_def posix_node_def
        Project_name_def)

text \<open>
  C5, as the code has it: an absent or falsy bin gives the empty mapping; a non-empty string
  gives the single entry keyed by the project's name; an object-typed bin, which is a mapping
  or an array with its indices as keys, gives one entry per key other than \<open>__proto__\<close>,
  with the value resolved against the project directory, when every value is a string, and
  the TypeError of \<open>path.resolve\<close> when some value is not; and a bin that is truthy but
  neither a string nor object-typed fails with the invalid-bin CliError that carries the
  inspected raw value and the manifest location.
\<close>

theorem getExecutables_by_shape:
  "(pj_bin (json p) = None \<longrightarrow> getExecutables node p = Inr []) \<and>
   (pj_bin (json p) = Some raw \<and> \<not> truthy raw \<longrightarrow> getExecutables node p = Inr []) \<and>
   (pj_bin (json p) = Some (JStr s) \<and> s \<noteq> [] \<longrightarrow>
      getExecutables node p = Inr [(Project_name p, resolve node (path p) s)]) \<and>
   (pj_bin (json p) = Some raw \<and> truthy raw \<and> js_typeof raw = T_object \<and>
    entries raw = map (\<lambda>(k, s). (k, JStr s)) bins \<longrightarrow>
      (\<exists>res. getExecutables node p = Inr res \<and>
         (\<forall>k. get_prop res k =
            (if k = ''__proto__'' then None
             else map_option (resolve node (path p)) (get_prop bins k))))) \<and>
   (pj_bin (json p) = Some raw \<and> truthy raw \<and> js_typeof raw = T_object \<and>
    k' \<in> set (object_keys (entries raw)) \<and> (\<forall>s. get_prop (entries raw) k' \<noteq> Some (JStr s)) \<longrightarrow>
      getExecutables node p = Inl TypeError) \<and>
   (pj_bin (json p) = Some raw \<and> truthy raw \<and> js_typeof raw \<noteq> T_string \<and>
    js_typeof raw \<noteq> T_object \<longrightarrow>
      getExecutables node p =
        Inl (CliError
          (''['' @ Project_name p @ ''] has an invalid '' @ [CHR 0x22] @ ''bin'' @ [CHR 0x22] @
           '' field in its package.json, expected an object or a string'')
          [(''binConfig'', inspect node raw),
           (''package'', Project_name p @ '' ('' @ packageJsonLocation p @ '')'')]))"
proof (intro conjI impI)
  show "pj_bin (json p) = None \<Longrightarrow> getExecutables node p = Inr []"
    by (simp add: getExecutables_def)
  show "pj_bin (json p) = Some raw \<and> \<not> truthy raw \<Longrightarrow> getExecutables node p = Inr []"
    by (simp add: getExecutables_def)
  show "pj_bin (json p) = Some (JStr s) \<and> s \<noteq> [] \<Longrightarrow>
      getExecutables node p = Inr [(Project_name p, resolve node (path p) s)]"
    by (simp add: getExecutables_def)
  show "pj_bin (json p) = Some raw \<and> truthy raw \<and> js_typeof raw \<noteq> T_string \<and>
    js_typeof raw \<noteq> T_object \<Longrightarrow>
      getExecutables node p =
        Inl (CliError
          (''['' @ Project_name p @ ''] has an invalid '' @ [CHR 0x22] @ ''bin'' @ [CHR 0x22] @
           '' field in its package.json, expected an object or a string'')
          [(''binConfig'', inspect node raw),
           (''package'', Project_name p @ '' ('' @ packageJsonLocation p @ '')'')])"
    by (simp add: getExecutables_def)
next
  assume a: "pj_bin (json p) = Some raw \<and> truthy raw \<and> js_typeof raw = T_object \<and>
    entries raw = map (\<lambda>(k, s). (k, JStr s)) bins"
  have keys: "object_keys (map (\<lambda>(k, s). (k, JStr s)) bins) = object_keys bins"
    by (simp add: object_keys_def case_prod_unfold comp_def)
  have "\<exists>res. binsConfig_loop node (path p) (entries raw) (object_keys bins) [] = Inr res \<and>
           (\<forall>k. get_prop res k =
              (if k \<in> set (object_keys bins) \<and> k \<noteq> ''__proto__''
               then map_option (resolve node (path p)) (get_prop bins k)
               else get_prop [] k))"
    using a by (intro binsConfig_loop_strings) simp_all
  then obtain res where
    res: "binsConfig_loop node (path p) (entries raw) (object_keys bins) [] = Inr res"
    and look: "\<And>k. get_prop res k =
              (if k \<in> set (object_keys bins) \<and> k \<noteq> ''__proto__''
               then map_option (resolve node (path p)) (get_prop bins k)
               else get_prop [] k)"
    by blast
  have "\<forall>k. get_prop res k =
            (if k = ''__proto__'' then None
             else map_option (resolve node (path p)) (get_prop bins k))"
    using get_prop_eq_None_iff [of bins] by (simp add: look get_prop_Nil)
  moreover have "getExecutables node p = Inr res"
    using a res by (simp add: getExecutables_def keys)
  ultimately show "\<exists>res. getExecutables node p = Inr res \<and>
         (\<forall>k. get_prop res k =
            (if k = ''__proto__'' then None
             else map_option (resolve node (path p)) (get_prop bins k)))"
    by blast
next
  assume a: "pj_bin (json p) = Some raw \<and> truthy raw \<and> js_typeof raw = T_object \<and>
    k' \<in> set (object_keys (entries raw)) \<and> (\<forall>s. get_prop (entries raw) k' \<noteq> Some (JStr s))"
  then have "binsConfig_loop node (path p) (entries raw) (object_keys (entries raw)) [] = Inl TypeError"
    by (intro binsConfig_loop_TypeError [of k']) simp_all
  with a show "getExecutables node p = Inl TypeError"
    by (simp add: getExecutables_def)
qed

theorem getExecutables_by_shape_witness:
  "getExecutables posix_node (foo None) = Inr [] \<and>
   getExecutables posix_node (foo (Some (JStr []))) = Inr [] \<and>
   getExecutables posix_node (foo (Some (JStr ''bin/cli.js''))) = Inr [(''foo'', ''/ws/foo/bin/cli.js'')] \<and>
   (\<exists>res. getExecutables posix_node
             (foo (Some (JObj [(''__proto__'', JStr ''x''), (''b'', JStr ''y'')]))) = Inr res \<and>
      get_prop res ''__proto__'' = None \<and> get_prop res ''b'' = Some ''/ws/foo/y'') \<and>
   getExecutables posix_node (foo (Some (JObj [(''a'', JStr ''x''), (''b'', JNum 3)]))) = Inl TypeError \<and>
   getExecutables posix_node (foo (Some (JNum 42))) =
     Inl (CliError
           (''[foo] has an invalid '' @ [CHR 0x22] @ ''bin'' @ [CHR 0x22] @
            '' field in its package.json, expected an object or a string'')
           [(''binConfig'', ''42''), (''package'', ''foo (/ws/foo/package.json)'')])"
proof (intro conjI)
  show "getExecutables posix_node (foo None) = Inr []"
    using getExecutables_by_shape [where p = "foo None" and node = posix_node]
    by (simp add: foo_fields)
  show "getExecutables posix_node (foo (Some (JStr []))) = Inr []"
    using getExecutables_by_shape [where p = "foo (Some (JStr []))" and node = posix_node
            and raw = "JStr []"]
    by (simp add: foo_fields)
  show "getExecutables posix_node (foo (Some (JStr ''bin/cli.js''))) = Inr [(''foo'', ''/ws/foo/bin/cli.js'')]"
    using getExecutables_by_shape [where p = "foo (Some (JStr ''bin/cli.js''))" and node = posix_node
            and s = "''bin/cli.js''"]
    by (simp add: foo_fields posix_node_def)
  show "\<exists>res. getExecutables posix_node
             (foo (Some (JObj [(''__proto__'', JStr ''x''), (''b'', JStr ''y'')]))) = Inr res \<and>
      get_prop res ''__proto__'' = None \<and> get_prop res ''b'' = Some ''/ws/foo/y''"
  proof -
    have "\<exists>res. getExecutables posix_node
                   (foo (Some (JObj [(''__proto__'', JStr ''x''), (''b'', JStr ''y'')]))) = Inr res \<and>
            (\<forall>k. get_prop res k =
               (if k = ''__proto__'' then None
                else map_option (resolve posix_node ''/ws/foo'')
                       (get_prop [(''__proto__'', ''x''), (''b'', ''y'')] k)))"
      using getExecutables_by_shape
              [where p = "foo (Some (JObj [(''__proto__'', JStr ''x''), (''b'', JStr ''y'')]))"
                 and node = posix_node and raw = "JObj [(''__proto__'', JStr ''x''), (''b'', JStr ''y'')]"
                 and bins = "[(''__proto__'', ''x''), (''b'', ''y'')]" and k' = "''b''"]
      by (auto simp: foo_fields)
    then obtain res where
      r: "getExecutables posix_node
            (foo (Some (JObj [(''__proto__'', JStr ''x''), (''b'', JStr ''y'')]))) = Inr res"
      and l: "\<And>k. get_prop res k =
             (if k = ''__proto__'' then None
              else map_option (resolve posix_node ''/ws/foo'')
                     (get_prop [(''__proto__'', ''x''), (''b'', ''y'')] k))"
      by blast
    have "get_prop res ''__proto__'' = None"
      using l [of "''__proto__''"] by simp
    moreover have "get_prop res ''b'' = Some ''/ws/foo/y''"
      using l [of "''b''"] by (simp add: posix_node_def get_prop_def)
    ultimately show ?thesis using r by blast
  qed
  show "getExecutables posix_node (foo (Some (JObj [(''a'', JStr ''x''), (''b'', JNum 3)]))) = Inl TypeError"
    using getExecutables_by_shape [where p = "foo (Some (JObj [(''a'', JStr ''x''), (''b'', JNum 3)]))"
            and node = posix_node and raw = "JObj [(''a'', JStr ''x''), (''b'', JNum 3)]"
            and k' = "''b''"]
    by (simp add: foo_fields object_keys_def get_prop_def)
  show "getExecutables posix_node (foo (Some (JNum 42))) =
     Inl (CliError
           (''[foo] has an invalid '' @ [CHR 0x22] @ ''bin'' @ [CHR 0x22] @
            '' field in its package.json, expected an object or a string'')
           [(''binConfig'', ''42''), (''package'', ''foo (/ws/foo/package.json)'')])"
    using getExecutables_by_shape [where p = "foo (Some (JNum 42))" and node = posix_node
            and raw = "JNum 42"]
    by (simp add: foo_fields posix_node_def example_inspect_def string_of_nat.simps digit_char_def)
qed

text \<open>
  A bin field that is an array is neither a string nor a mapping, yet the call does not
  fail: the array is object-typed, and its one element is returned under the key \<open>0\<close>.
\<close>

theorem getExecutables_array_counterexample:
  "getExecutables posix_node (foo (Some (JArr [JStr ''cli.js'']))) = Inr [(''0'', ''/ws/foo/cli.js'')]"
  by (simp add: getExecutables_def foo_fields posix_node_def object_keys_def get_prop_def
        set_prop_def assign_prop_def string_of_nat.simps digit_char_def)

section \<open>Properties of the reconciler\<close>

lemma unlinkSync_calls: "calls (snd (unlinkSync file w)) = calls w @ [UnlinkSync file]"
  by (simp add: unlinkSync_def Let_def)

lemma remove_unused_calls:
  "\<exists>rest. calls (snd (remove_unused node p names w)) = calls w @ rest \<and>
          (\<forall>c\<in>set rest. \<not> is_install c)"
proof (induction names arbitrary: w)
  case Nil
  show ?case by simp
next
  case (Cons name names)
  let ?file = "resolve node (nodeModulesLocation p) name"
  show ?case
  proof (cases "\<not> declares (pj_dependencies (json p)) name \<and>
                \<not> declares (pj_devDependencies (json p)) name \<and> existsSync ?file w")
    case False
    then have "remove_unused node p (name # names) w = remove_unused node p names w"
      by (auto simp: Let_def)
    with Cons.IH [of w] show ?thesis by simp
  next
    case True
    obtain r w' where u: "unlinkSync ?file w = (r, w')" by (cases "unlinkSync ?file w")
    then have c: "calls w' = calls w @ [UnlinkSync ?file]"
      using unlinkSync_calls [of ?file w] by simp
    show ?thesis
    proof (cases r)
      case (Inl e)
      with True u have "remove_unused node p (name # names) w = (Inl e, w')"
        by (simp add: Let_def)
      with c show ?thesis by simp
    next
      case (Inr x)
      with True u have "remove_unused node p (name # names) w = remove_unused node p names w'"
        by (simp add: Let_def)
      moreover obtain rest where "calls (snd (remove_unused node p names w')) = calls w' @ rest"
        and "\<forall>c\<in>set rest. \<not> is_install c"
        using Cons.IH [of w'] by blast
      ultimately show ?thesis using c by simp
    qed
  qed
qed

lemma removeExtraneousNodeModules_calls:
  "\<exists>rest. calls (snd (removeExtraneousNodeModules drv node p w)) = calls w @ rest \<and>
          (\<forall>c\<in>set rest. \<not> is_install c)"
proof (cases "isWorkspaceRoot p")
  case False
  then show ?thesis by (simp add: removeExtraneousNodeModules_def)
next
  case True
  let ?w1 = "w\<lparr>calls := calls w @ [YarnWorkspacesInfo (path p)]\<rparr>"
  show ?thesis
  proof (cases "drv_yarnWorkspacesInfo drv (path p) (files w)")
    case (Inl e)
    with True show ?thesis
      by (simp add: removeExtraneousNodeModules_def yarnWorkspacesInfo_def)
  next
    case (Inr info)
    let ?names = "delete_used info (object_keys info) (new_Set (object_keys info))"
    from Inr True have "removeExtraneousNodeModules drv node p w = remove_unused node p ?names ?w1"
      by (simp add: removeExtraneousNodeModules_def yarnWorkspacesInfo_def)
    moreover obtain rest where "calls (snd (remove_unused node p ?names ?w1)) = calls ?w1 @ rest"
        and "\<forall>c\<in>set rest. \<not> is_install c"
      using remove_unused_calls [of node p ?names ?w1] by blast
    ultimately show ?thesis by simp
  qed
qed


lemma app_project_fields:
  "path app_project = ''/ws/app''" "packageJsonLocation app_project = ''/ws/app/package.json''"
  "isWorkspaceProject app_project = False" "isWorkspaceRoot app_project = False"
  "resolve posix_node d f = d @ ''/'' @ f"
  by (simp_all add: app_project_def new_Project_def Let_def posix_node_def app_json_def empty_json_def)

text \<open>
  C9: for a project that is not the workspace root the reconciler returns at once: the
  world, with its files and its log of driver calls and removals, is unchanged.
\<close>

theorem removeExtraneousNodeModules_not_root:
  "\<not> isWorkspaceRoot p \<Longrightarrow> removeExtraneousNodeModules drv node p w = (Inr (), w)"
  by (simp add: removeExtraneousNodeModules_def)

theorem removeExtraneousNodeModules_not_root_witness:
  "\<not> isWorkspaceRoot app_project \<and>
   removeExtraneousNodeModules (quiet_driver abc_info) posix_node app_project abc_world =
     (Inr (), abc_world)"
  using removeExtraneousNodeModules_not_root
          [of app_project "quiet_driver abc_info" posix_node abc_world]
  by (simp add: app_project_fields)




section \<open>Properties of installDependencyVersion\<close>

lemma patchFile_calls:
  "calls (snd (patchFile file s r w)) = calls w @ [PatchFile file s r]"
  by (simp add: patchFile_def Let_def split: option.splits)

lemma patchFile_ok:
  "files w file = Some content \<Longrightarrow>
   patchFile file s r w =
     (Inr (), w\<lparr>files := (files w)(file \<mapsto> replaceAll s r content),
               calls := calls w @ [PatchFile file s r]\<rparr>)"
  by (simp add: patchFile_def Let_def)

lemma installInDir_calls:
  "calls (snd (installInDir drv dir extraArgs useAdd w)) = calls w @ [InstallInDir dir extraArgs useAdd]"
  by (simp add: installInDir_def Let_def split: sum.splits)

lemma installInDir_ok:
  "drv_installInDir drv dir extraArgs useAdd (files w) = Inr fs1 \<Longrightarrow>
   installInDir drv dir extraArgs useAdd w =
     (Inr (), w\<lparr>files := fs1, calls := calls w @ [InstallInDir dir extraArgs useAdd]\<rparr>)"
  by (simp add: installInDir_def Let_def)

lemma installDependencyVersion_calls:
  "\<exists>rest. calls (snd (installDependencyVersion drv node p depName ver dev rng w)) =
            calls w @ install_call p depName ver dev # rest \<and>
          (\<forall>c\<in>set rest. \<not> is_install c)"
proof -
  let ?inst = "if isWorkspaceProject p then installInDir drv (path p) None None w
     else installInDir drv (path p)
            (Some ([depName @ ''@'' @ ver] @ (if dev then [''--dev''] else []))) (Some True) w"
  let ?s1 = "[CHR 0x22] @ depName @ [CHR 0x22] @ '': '' @ [CHR 0x22] @ ver @ [CHR 0x22]"
  let ?r1 = "[CHR 0x22] @ depName @ [CHR 0x22] @ '': '' @ [CHR 0x22] @ rangeToUse ver rng @ [CHR 0x22]"
  let ?s2 = "depName @ ''@'' @ ver"
  let ?r2 = "depName @ ''@'' @ rangeToUse ver rng"
  let ?lock = "resolve node (path p) ''yarn.lock''"
  obtain x1 w1 where i1: "?inst = (x1, w1)" by (cases ?inst)
  obtain x2 w2 where i2: "patchFile (packageJsonLocation p) ?s1 ?r1 w1 = (x2, w2)"
    by (cases "patchFile (packageJsonLocation p) ?s1 ?r1 w1")
  obtain x3 w3 where i3: "patchFile ?lock ?s2 ?r2 w2 = (x3, w3)"
    by (cases "patchFile ?lock ?s2 ?r2 w2")
  have c1: "calls w1 = calls w @ [install_call p depName ver dev]"
    using i1 installInDir_calls [of drv "path p" None None w]
      installInDir_calls [of drv "path p"
        "Some ([depName @ ''@'' @ ver] @ (if dev then [''--dev''] else []))" "Some True" w]
    by (simp add: install_call_def split: if_splits)
  have c2: "calls w2 = calls w1 @ [PatchFile (packageJsonLocation p) ?s1 ?r1]"
    using i2 patchFile_calls [of "packageJsonLocation p" ?s1 ?r1 w1] by simp
  have c3: "calls w3 = calls w2 @ [PatchFile ?lock ?s2 ?r2]"
    using i3 patchFile_calls [of ?lock ?s2 ?r2 w2] by simp
  obtain rest where c4: "calls (snd (removeExtraneousNodeModules drv node p w3)) = calls w3 @ rest"
    and ni: "\<forall>c\<in>set rest. \<not> is_install c"
    using removeExtraneousNodeModules_calls [of drv node p w3] by blast
  have unfold: "installDependencyVersion drv node p depName ver dev rng w =
    (case x1 of Inl e \<Rightarrow> (Inl e, w1)
     | Inr u1 \<Rightarrow>
        (case x2 of Inl e \<Rightarrow> (Inl e, w2)
         | Inr u2 \<Rightarrow>
            (case x3 of Inl e \<Rightarrow> (Inl e, w3)
             | Inr u3 \<Rightarrow> removeExtraneousNodeModules drv node p w3)))"
    unfolding installDependencyVersion_def Let_def i1
    by (cases x1; cases x2; cases x3) (simp_all only: i2 i3 prod.case sum.case)
  show ?thesis
  proof (cases x1)
    case (Inl e)
    with unfold c1 show ?thesis by simp
  next
    case i: (Inr u1)
    show ?thesis
    proof (cases x2)
      case (Inl e)
      with unfold i c1 c2 show ?thesis by simp
    next
      case j: (Inr u2)
      show ?thesis
      proof (cases x3)
        case (Inl e)
        with unfold i j c1 c2 c3 show ?thesis by simp
      next
        case (Inr u3)
        with unfold i j c1 c2 c3 c4 ni show ?thesis by simp
      qed
    qed
  qed
qed

lemma installDependencyVersion_ok:
  assumes "drv_installInDir drv (path p)
             (if isWorkspaceProject p then None
              else Some ([depName @ ''@'' @ ver] @ (if dev then [''--dev''] else [])))
             (if isWorkspaceProject p then None else Some True) (files w) = Inr fs1"
      and "fs1 (packageJsonLocation p) = Some manifest"
      and "fs1 (resolve node (path p) ''yarn.lock'') = Some lock"
      and "packageJsonLocation p \<noteq> resolve node (path p) ''yarn.lock''"
  shows "installDependencyVersion drv node p depName ver dev rng w =
           removeExtraneousNodeModules drv node p
             (w\<lparr>files := fs1
                   (packageJsonLocation p \<mapsto>
                      replaceAll ([CHR 0x22] @ depName @ [CHR 0x22] @ '': '' @ [CHR 0x22] @ ver @ [CHR 0x22])
                        ([CHR 0x22] @ depName @ [CHR 0x22] @ '': '' @ [CHR 0x22] @ rangeToUse ver rng @ [CHR 0x22]) manifest,
                    resolve node (path p) ''yarn.lock'' \<mapsto>
                      replaceAll (depName @ ''@'' @ ver) (depName @ ''@'' @ rangeToUse ver rng) lock),
                calls := calls w @
                  [install_call p depName ver dev,
                   PatchFile (packageJsonLocation p) ([CHR 0x22] @ depName @ [CHR 0x22] @ '': '' @ [CHR 0x22] @ ver @ [CHR 0x22])
                     ([CHR 0x22] @ depName @ [CHR 0x22] @ '': '' @ [CHR 0x22] @ rangeToUse ver rng @ [CHR 0x22]),
                   PatchFile (resolve node (path p) ''yarn.lock'') (depName @ ''@'' @ ver)
                     (depName @ ''@'' @ rangeToUse ver rng)]\<rparr>)"
proof (cases "isWorkspaceProject p")
  case True
  with assms show ?thesis
    by (simp add: installDependencyVersion_def Let_def installInDir_ok patchFile_ok install_call_def)
next
  case False
  with assms show ?thesis
    by (simp add: installDependencyVersion_def Let_def installInDir_ok patchFile_ok install_call_def)
qed

lemma replaceAll_hit: "pat \<noteq> [] \<Longrightarrow> replaceAll pat rep (pat @ s) = rep @ replaceAll pat rep s"
  by (cases pat) simp_all

lemma replaceAll_miss: "\<not> prefix pat (c # s) \<Longrightarrow> replaceAll pat rep (c # s) = c # replaceAll pat rep s"
  by simp

lemma replaceAll_no_occurrence:
  "\<forall>a b. s \<noteq> a @ pat @ b \<Longrightarrow> replaceAll pat rep s = s"
proof (induction s)
  case Nil
  show ?case by simp
next
  case (Cons c s)
  have np: "\<not> prefix pat (c # s)"
  proof
    assume "prefix pat (c # s)"
    then obtain b where "c # s = pat @ b" by (auto simp: prefix_def)
    then have "c # s = [] @ pat @ b" by simp
    with Cons.prems show False by blast
  qed
  have "\<forall>a b. s \<noteq> a @ pat @ b"
  proof (intro allI notI)
    fix a b assume "s = a @ pat @ b"
    then have "c # s = (c # a) @ pat @ b" by simp
    with Cons.prems show False by blast
  qed
  with Cons.IH np show ?case by simp
qed

lemma replaceAll_first_occurrence:
  assumes "pat \<noteq> []"
      and "\<forall>a1 a2. a = a1 @ a2 \<and> a2 \<noteq> [] \<longrightarrow> \<not> prefix pat (a2 @ pat @ b)"
  shows "replaceAll pat rep (a @ pat @ b) = a @ rep @ replaceAll pat rep b"
  using assms(2)
proof (induction a)
  case Nil
  show ?case using assms(1) by (simp add: replaceAll_hit)
next
  case (Cons c a)
  have "\<not> prefix pat ((c # a) @ pat @ b)"
    using Cons.prems by blast
  then have step: "replaceAll pat rep ((c # a) @ pat @ b) = c # replaceAll pat rep (a @ pat @ b)"
    by simp
  have "\<forall>a1 a2. a = a1 @ a2 \<and> a2 \<noteq> [] \<longrightarrow> \<not> prefix pat (a2 @ pat @ b)"
  proof (intro allI impI)
    fix a1 a2 assume "a = a1 @ a2 \<and> a2 \<noteq> []"
    then have "c # a = (c # a1) @ a2 \<and> a2 \<noteq> []" by simp
    with Cons.prems show "\<not> prefix pat (a2 @ pat @ b)" by blast
  qed
  with Cons.IH step show ?case by simp
qed

lemma member_project_fields:
  "path member_project = ''/ws/app''" "packageJsonLocation member_project = ''/ws/app/package.json''"
  "isWorkspaceProject member_project" "isWorkspaceRoot member_project = False"
  by (simp_all add: member_project_def app_project_fields)

lemma lodash_world_fields:
  "calls lodash_world = []"
  "files lodash_world ''/ws/app/package.json'' = Some lodash_manifest"
  "files lodash_world ''/ws/app/yarn.lock'' = Some lodash_lock"
  "lodash_world\<lparr>files := f, calls := c\<rparr> = \<lparr>files = f, calls = c\<rparr>"
  "(files lodash_world)(''/ws/app/package.json'' \<mapsto> x, ''/ws/app/yarn.lock'' \<mapsto> y) =
     [''/ws/app/package.json'' \<mapsto> x, ''/ws/app/yarn.lock'' \<mapsto> y]"
  by (auto simp: lodash_world_def fun_eq_iff)

lemma replaceAll_lodash_manifest:
  "replaceAll ([CHR 0x22] @ ''lodash'' @ [CHR 0x22] @ '': '' @ [CHR 0x22] @ ''4.17.21'' @ [CHR 0x22])
     ([CHR 0x22] @ ''lodash'' @ [CHR 0x22] @ '': '' @ [CHR 0x22] @ ''^4.17.21'' @ [CHR 0x22])
     lodash_manifest = lodash_manifest_patched"
  by (simp add: lodash_manifest_def lodash_manifest_patched_def)

lemma replaceAll_lodash_lock:
  "replaceAll ''lodash@4.17.21'' ''lodash@^4.17.21'' lodash_lock = lodash_lock_patched"
  by (simp add: lodash_lock_def lodash_lock_patched_def)

text \<open>
  C3, as the code has it: for a project that is not a workspace member, when the install of
  name@version (with \<open>--dev\<close> when asked) succeeds and the manifest and the lock file exist,
  the manifest has every occurrence of the fragment made of the quoted name, a colon, a
  space and the quoted version replaced by the same fragment with the range, the lock file
  has every occurrence of \<open>name@version\<close> replaced by \<open>name@range\<close>, no other file is
  changed, and the reconciler runs on the result. The range is the caret-prefixed version
  when none, or an empty one, is supplied. The replacement rewrites the first occurrence of
  the search text and goes on behind it, and leaves a text without an occurrence as it is.
\<close>

theorem installDependencyVersion_patches:
  assumes "\<not> isWorkspaceProject p"
      and "drv_installInDir drv (path p)
             (Some ([depName @ ''@'' @ ver] @ (if dev then [''--dev''] else []))) (Some True)
             (files w) = Inr fs1"
      and "fs1 (packageJsonLocation p) = Some manifest"
      and "fs1 (resolve node (path p) ''yarn.lock'') = Some lock"
      and "packageJsonLocation p \<noteq> resolve node (path p) ''yarn.lock''"
  shows "installDependencyVersion drv node p depName ver dev rng w =
           removeExtraneousNodeModules drv node p
             (w\<lparr>files := fs1
                   (packageJsonLocation p \<mapsto>
                      replaceAll
                        ([CHR 0x22] @ depName @ [CHR 0x22] @ '': '' @ [CHR 0x22] @ ver @ [CHR 0x22])
                        ([CHR 0x22] @ depName @ [CHR 0x22] @ '': '' @
                           [CHR 0x22] @ rangeToUse ver rng @ [CHR 0x22]) manifest,
                    resolve node (path p) ''yarn.lock'' \<mapsto>
                      replaceAll (depName @ ''@'' @ ver) (depName @ ''@'' @ rangeToUse ver rng) lock),
                calls := calls w @
                  [InstallInDir (path p)
                     (Some ([depName @ ''@'' @ ver] @ (if dev then [''--dev''] else []))) (Some True),
                   PatchFile (packageJsonLocation p)
                     ([CHR 0x22] @ depName @ [CHR 0x22] @ '': '' @ [CHR 0x22] @ ver @ [CHR 0x22])
                     ([CHR 0x22] @ depName @ [CHR 0x22] @ '': '' @
                        [CHR 0x22] @ rangeToUse ver rng @ [CHR 0x22]),
                   PatchFile (resolve node (path p) ''yarn.lock'') (depName @ ''@'' @ ver)
                     (depName @ ''@'' @ rangeToUse ver rng)]\<rparr>) \<and>
         rangeToUse ver None = ''^'' @ ver \<and>
         rangeToUse ver (Some []) = ''^'' @ ver \<and>
         (r \<noteq> [] \<longrightarrow> rangeToUse ver (Some r) = r) \<and>
         (pat \<noteq> [] \<and> (\<forall>a1 a2. a = a1 @ a2 \<and> a2 \<noteq> [] \<longrightarrow> \<not> prefix pat (a2 @ pat @ b)) \<longrightarrow>
            replaceAll pat rep (a @ pat @ b) = a @ rep @ replaceAll pat rep b) \<and>
         ((\<forall>a b. s \<noteq> a @ pat @ b) \<longrightarrow> replaceAll pat rep s = s)"
proof -
  have "installDependencyVersion drv node p depName ver dev rng w =
           removeExtraneousNodeModules drv node p
             (w\<lparr>files := fs1
                   (packageJsonLocation p \<mapsto>
                      replaceAll
                        ([CHR 0x22] @ depName @ [CHR 0x22] @ '': '' @ [CHR 0x22] @ ver @ [CHR 0x22])
                        ([CHR 0x22] @ depName @ [CHR 0x22] @ '': '' @
                           [CHR 0x22] @ rangeToUse ver rng @ [CHR 0x22]) manifest,
                    resolve node (path p) ''yarn.lock'' \<mapsto>
                      replaceAll (depName @ ''@'' @ ver) (depName @ ''@'' @ rangeToUse ver rng) lock),
                calls := calls w @
                  [install_call p depName ver dev,
                   PatchFile (packageJsonLocation p)
                     ([CHR 0x22] @ depName @ [CHR 0x22] @ '': '' @ [CHR 0x22] @ ver @ [CHR 0x22])
                     ([CHR 0x22] @ depName @ [CHR 0x22] @ '': '' @
                        [CHR 0x22] @ rangeToUse ver rng @ [CHR 0x22]),
                   PatchFile (resolve node (path p) ''yarn.lock'') (depName @ ''@'' @ ver)
                     (depName @ ''@'' @ rangeToUse ver rng)]\<rparr>)"
    using assms by (intro installDependencyVersion_ok) simp_all
  moreover have "pat \<noteq> [] \<and> (\<forall>a1 a2. a = a1 @ a2 \<and> a2 \<noteq> [] \<longrightarrow> \<not> prefix pat (a2 @ pat @ b)) \<longrightarrow>
            replaceAll pat rep (a @ pat @ b) = a @ rep @ replaceAll pat rep b"
    using replaceAll_first_occurrence [of pat a b rep] by blast
  moreover have "(\<forall>a b. s \<noteq> a @ pat @ b) \<longrightarrow> replaceAll pat rep s = s"
    using replaceAll_no_occurrence [of s pat rep] by blast
  ultimately show ?thesis
    using assms(1) by (simp add: install_call_def rangeToUse_def)
qed

theorem installDependencyVersion_patches_witness:
  "\<not> isWorkspaceProject app_project \<and>
   drv_installInDir (quiet_driver []) (path app_project) (Some [''lodash@4.17.21'']) (Some True)
     (files lodash_world) = Inr (files lodash_world) \<and>
   files lodash_world (packageJsonLocation app_project) = Some lodash_manifest \<and>
   files lodash_world (resolve posix_node (path app_project) ''yarn.lock'') = Some lodash_lock \<and>
   packageJsonLocation app_project \<noteq> resolve posix_node (path app_project) ''yarn.lock'' \<and>
   installDependencyVersion (quiet_driver []) posix_node app_project
     ''lodash'' ''4.17.21'' False None lodash_world =
     (Inr (),
      \<lparr> files = [''/ws/app/package.json'' \<mapsto>
                   ''{'' @ [CHR 0x22] @ ''lodash'' @ [CHR 0x22] @ '': '' @
                     [CHR 0x22] @ ''^4.17.21'' @ [CHR 0x22] @
                   '', '' @ [CHR 0x22] @ ''x'' @ [CHR 0x22] @ '': '' @
                     [CHR 0x22] @ ''lodash@4.17.21'' @ [CHR 0x22] @
                   '', '' @ [CHR 0x22] @ ''lodash'' @ [CHR 0x22] @ '': '' @
                     [CHR 0x22] @ ''^4.17.21'' @ [CHR 0x22] @ ''}'',
                 ''/ws/app/yarn.lock'' \<mapsto> ''lodash@^4.17.21, lodash@^3.0.0, lodash@^4.17.21:''],
        calls = [InstallInDir ''/ws/app'' (Some [''lodash@4.17.21'']) (Some True),
                 PatchFile ''/ws/app/package.json''
                   ([CHR 0x22] @ ''lodash'' @ [CHR 0x22] @ '': '' @ [CHR 0x22] @ ''4.17.21'' @ [CHR 0x22])
                   ([CHR 0x22] @ ''lodash'' @ [CHR 0x22] @ '': '' @ [CHR 0x22] @ ''^4.17.21'' @ [CHR 0x22]),
                 PatchFile ''/ws/app/yarn.lock'' ''lodash@4.17.21'' ''lodash@^4.17.21''] \<rparr>)"
proof -
  have h1: "\<not> isWorkspaceProject app_project"
    by (simp add: app_project_fields)
  have h2: "drv_installInDir (quiet_driver []) (path app_project)
              (Some ([''lodash'' @ ''@'' @ ''4.17.21''] @ (if False then [''--dev''] else []))) (Some True)
              (files lodash_world) = Inr (files lodash_world)"
    by (simp add: quiet_driver_def)
  have h3: "files lodash_world (packageJsonLocation app_project) = Some lodash_manifest"
    by (simp add: lodash_world_def app_project_fields)
  have h4: "files lodash_world (resolve posix_node (path app_project) ''yarn.lock'') = Some lodash_lock"
    by (simp add: lodash_world_def app_project_fields)
  have h5: "packageJsonLocation app_project \<noteq> resolve posix_node (path app_project) ''yarn.lock''"
    by (simp add: app_project_fields)
  have "installDependencyVersion (quiet_driver []) posix_node app_project
     ''lodash'' ''4.17.21'' False None lodash_world =
     (Inr (),
      \<lparr> files = [''/ws/app/package.json'' \<mapsto> lodash_manifest_patched,
                 ''/ws/app/yarn.lock'' \<mapsto> lodash_lock_patched],
        calls = [InstallInDir ''/ws/app'' (Some [''lodash@4.17.21'']) (Some True),
                 PatchFile ''/ws/app/package.json''
                   ([CHR 0x22] @ ''lodash'' @ [CHR 0x22] @ '': '' @ [CHR 0x22] @ ''4.17.21'' @ [CHR 0x22])
                   ([CHR 0x22] @ ''lodash'' @ [CHR 0x22] @ '': '' @ [CHR 0x22] @ ''^4.17.21'' @ [CHR 0x22]),
                 PatchFile ''/ws/app/yarn.lock'' ''lodash@4.17.21'' ''lodash@^4.17.21''] \<rparr>)"
    using installDependencyVersion_patches [OF h1 h2 h3 h4 h5, where rng = None and r = "''^''"
            and pat = "''p''" and a = "[]" and b = "[]" and s = "[]" and rep = "[]"]
          replaceAll_lodash_manifest replaceAll_lodash_lock
    by (simp add: removeExtraneousNodeModules_def app_project_fields lodash_world_fields
          rangeToUse_def)
  then have "installDependencyVersion (quiet_driver []) posix_node app_project
     ''lodash'' ''4.17.21'' False None lodash_world =
     (Inr (),
      \<lparr> files = [''/ws/app/package.json'' \<mapsto>
                   ''{'' @ [CHR 0x22] @ ''lodash'' @ [CHR 0x22] @ '': '' @
                     [CHR 0x22] @ ''^4.17.21'' @ [CHR 0x22] @
                   '', '' @ [CHR 0x22] @ ''x'' @ [CHR 0x22] @ '': '' @
                     [CHR 0x22] @ ''lodash@4.17.21'' @ [CHR 0x22] @
                   '', '' @ [CHR 0x22] @ ''lodash'' @ [CHR 0x22] @ '': '' @
                     [CHR 0x22] @ ''^4.17.21'' @ [CHR 0x22] @ ''}'',
                 ''/ws/app/yarn.lock'' \<mapsto> ''lodash@^4.17.21, lodash@^3.0.0, lodash@^4.17.21:''],
        calls = [InstallInDir ''/ws/app'' (Some [''lodash@4.17.21'']) (Some True),
                 PatchFile ''/ws/app/package.json''
                   ([CHR 0x22] @ ''lodash'' @ [CHR 0x22] @ '': '' @ [CHR 0x22] @ ''4.17.21'' @ [CHR 0x22])
                   ([CHR 0x22] @ ''lodash'' @ [CHR 0x22] @ '': '' @ [CHR 0x22] @ ''^4.17.21'' @ [CHR 0x22]),
                 PatchFile ''/ws/app/yarn.lock'' ''lodash@4.17.21'' ''lodash@^4.17.21''] \<rparr>)"
    by (simp add: lodash_manifest_patched_def lodash_lock_patched_def)
  with h1 h2 h3 h4 h5 show ?thesis by simp
qed

text \<open>
  A manifest that holds the text \<open>lodash@4.17.21\<close> keeps it: the manifest is patched with
  the quoted name, a colon, a space and the quoted version as search text, not with
  \<open>lodash@4.17.21\<close>. Replacing \<open>lodash@4.17.21\<close> in the manifest would give another text.
\<close>

theorem installDependencyVersion_manifest_counterexample:
  "files (snd (installDependencyVersion (quiet_driver []) posix_node app_project
            ''lodash'' ''4.17.21'' False None lodash_world)) ''/ws/app/package.json'' =
     Some (''{'' @ [CHR 0x22] @ ''lodash'' @ [CHR 0x22] @ '': '' @
             [CHR 0x22] @ ''^4.17.21'' @ [CHR 0x22] @
           '', '' @ [CHR 0x22] @ ''x'' @ [CHR 0x22] @ '': '' @
             [CHR 0x22] @ ''lodash@4.17.21'' @ [CHR 0x22] @
           '', '' @ [CHR 0x22] @ ''lodash'' @ [CHR 0x22] @ '': '' @
             [CHR 0x22] @ ''^4.17.21'' @ [CHR 0x22] @ ''}'') \<and>
   replaceAll ''lodash@4.17.21'' ''lodash@^4.17.21'' lodash_manifest =
     ''{'' @ [CHR 0x22] @ ''lodash'' @ [CHR 0x22] @ '': '' @
       [CHR 0x22] @ ''4.17.21'' @ [CHR 0x22] @
     '', '' @ [CHR 0x22] @ ''x'' @ [CHR 0x22] @ '': '' @
       [CHR 0x22] @ ''lodash@^4.17.21'' @ [CHR 0x22] @
     '', '' @ [CHR 0x22] @ ''lodash'' @ [CHR 0x22] @ '': '' @
       [CHR 0x22] @ ''4.17.21'' @ [CHR 0x22] @ ''}''"
proof
  have "installDependencyVersion (quiet_driver []) posix_node app_project
            ''lodash'' ''4.17.21'' False None lodash_world =
        removeExtraneousNodeModules (quiet_driver []) posix_node app_project
          (lodash_world\<lparr>files := (files lodash_world)
              (packageJsonLocation app_project \<mapsto>
                 replaceAll
                   ([CHR 0x22] @ ''lodash'' @ [CHR 0x22] @ '': '' @ [CHR 0x22] @ ''4.17.21'' @ [CHR 0x22])
                   ([CHR 0x22] @ ''lodash'' @ [CHR 0x22] @ '': '' @
                      [CHR 0x22] @ rangeToUse ''4.17.21'' None @ [CHR 0x22]) lodash_manifest,
               resolve posix_node (path app_project) ''yarn.lock'' \<mapsto>
                 replaceAll (''lodash'' @ ''@'' @ ''4.17.21'')
                   (''lodash'' @ ''@'' @ rangeToUse ''4.17.21'' None) lodash_lock),
            calls := calls lodash_world @
              [install_call app_project ''lodash'' ''4.17.21'' False,
               PatchFile (packageJsonLocation app_project)
                 ([CHR 0x22] @ ''lodash'' @ [CHR 0x22] @ '': '' @ [CHR 0x22] @ ''4.17.21'' @ [CHR 0x22])
                 ([CHR 0x22] @ ''lodash'' @ [CHR 0x22] @ '': '' @
                    [CHR 0x22] @ rangeToUse ''4.17.21'' None @ [CHR 0x22]),
               PatchFile (resolve posix_node (path app_project) ''yarn.lock'')
                 (''lodash'' @ ''@'' @ ''4.17.21'')
                 (''lodash'' @ ''@'' @ rangeToUse ''4.17.21'' None)]\<rparr>)"
    by (rule installDependencyVersion_ok)
       (simp_all add: app_project_fields quiet_driver_def lodash_world_def)
  then show "files (snd (installDependencyVersion (quiet_driver []) posix_node app_project
            ''lodash'' ''4.17.21'' False None lodash_world)) ''/ws/app/package.json'' =
     Some (''{'' @ [CHR 0x22] @ ''lodash'' @ [CHR 0x22] @ '': '' @
             [CHR 0x22] @ ''^4.17.21'' @ [CHR 0x22] @
           '', '' @ [CHR 0x22] @ ''x'' @ [CHR 0x22] @ '': '' @
             [CHR 0x22] @ ''lodash@4.17.21'' @ [CHR 0x22] @
           '', '' @ [CHR 0x22] @ ''lodash'' @ [CHR 0x22] @ '': '' @
             [CHR 0x22] @ ''^4.17.21'' @ [CHR 0x22] @ ''}'')"
    using replaceAll_lodash_manifest
    by (simp add: removeExtraneousNodeModules_def app_project_fields rangeToUse_def
          lodash_manifest_patched_def)
  show "replaceAll ''lodash@4.17.21'' ''lodash@^4.17.21'' lodash_manifest =
     ''{'' @ [CHR 0x22] @ ''lodash'' @ [CHR 0x22] @ '': '' @
       [CHR 0x22] @ ''4.17.21'' @ [CHR 0x22] @
     '', '' @ [CHR 0x22] @ ''x'' @ [CHR 0x22] @ '': '' @
       [CHR 0x22] @ ''lodash@^4.17.21'' @ [CHR 0x22] @
     '', '' @ [CHR 0x22] @ ''lodash'' @ [CHR 0x22] @ '': '' @
       [CHR 0x22] @ ''4.17.21'' @ [CHR 0x22] @ ''}''"
    by (simp add: lodash_manifest_def)
qed

text \<open>
  C8: for a workspace member the first driver call is the install of the project directory
  with no further argument, and no other install call follows; when that install succeeds
  and the manifest and the lock file exist, the two patches are made after it and the
  reconciler runs on the result.
\<close>

theorem installDependencyVersion_workspace_member:
  assumes "isWorkspaceProject p"
  shows "(\<exists>rest. calls (snd (installDependencyVersion drv node p depName ver dev rng w)) =
                  calls w @ InstallInDir (path p) None None # rest \<and>
                (\<forall>c\<in>set rest. \<not> is_install c)) \<and>
         (drv_installInDir drv (path p) None None (files w) = Inr fs1 \<and>
          fs1 (packageJsonLocation p) = Some manifest \<and>
          fs1 (resolve node (path p) ''yarn.lock'') = Some lock \<and>
          packageJsonLocation p \<noteq> resolve node (path p) ''yarn.lock'' \<longrightarrow>
            installDependencyVersion drv node p depName ver dev rng w =
              removeExtraneousNodeModules drv node p
                (w\<lparr>files := fs1
                      (packageJsonLocation p \<mapsto>
                         replaceAll ([CHR 0x22] @ depName @ [CHR 0x22] @ '': '' @ [CHR 0x22] @ ver @ [CHR 0x22])
                           ([CHR 0x22] @ depName @ [CHR 0x22] @ '': '' @ [CHR 0x22] @ rangeToUse ver rng @ [CHR 0x22]) manifest,
                       resolve node (path p) ''yarn.lock'' \<mapsto>
                         replaceAll (depName @ ''@'' @ ver) (depName @ ''@'' @ rangeToUse ver rng) lock),
                   calls := calls w @
                     [InstallInDir (path p) None None,
                      PatchFile (packageJsonLocation p) ([CHR 0x22] @ depName @ [CHR 0x22] @ '': '' @ [CHR 0x22] @ ver @ [CHR 0x22])
                        ([CHR 0x22] @ depName @ [CHR 0x22] @ '': '' @ [CHR 0x22] @ rangeToUse ver rng @ [CHR 0x22]),
                      PatchFile (resolve node (path p) ''yarn.lock'') (depName @ ''@'' @ ver)
                        (depName @ ''@'' @ rangeToUse ver rng)]\<rparr>))"
proof (intro conjI impI)
  show "\<exists>rest. calls (snd (installDependencyVersion drv node p depName ver dev rng w)) =
                  calls w @ InstallInDir (path p) None None # rest \<and>
                (\<forall>c\<in>set rest. \<not> is_install c)"
    using installDependencyVersion_calls [of drv node p depName ver dev rng w] assms
    by (simp add: install_call_def)
next
  assume a: "drv_installInDir drv (path p) None None (files w) = Inr fs1 \<and>
          fs1 (packageJsonLocation p) = Some manifest \<and>
          fs1 (resolve node (path p) ''yarn.lock'') = Some lock \<and>
          packageJsonLocation p \<noteq> resolve node (path p) ''yarn.lock''"
  have "installDependencyVersion drv node p depName ver dev rng w =
           removeExtraneousNodeModules drv node p
             (w\<lparr>files := fs1
                   (packageJsonLocation p \<mapsto>
                      replaceAll ([CHR 0x22] @ depName @ [CHR 0x22] @ '': '' @ [CHR 0x22] @ ver @ [CHR 0x22])
                        ([CHR 0x22] @ depName @ [CHR 0x22] @ '': '' @ [CHR 0x22] @ rangeToUse ver rng @ [CHR 0x22]) manifest,
                    resolve node (path p) ''yarn.lock'' \<mapsto>
                      replaceAll (depName @ ''@'' @ ver) (depName @ ''@'' @ rangeToUse ver rng) lock),
                calls := calls w @
                  [install_call p depName ver dev,
                   PatchFile (packageJsonLocation p) ([CHR 0x22] @ depName @ [CHR 0x22] @ '': '' @ [CHR 0x22] @ ver @ [CHR 0x22])
                     ([CHR 0x22] @ depName @ [CHR 0x22] @ '': '' @ [CHR 0x22] @ rangeToUse ver rng @ [CHR 0x22]),
                   PatchFile (resolve node (path p) ''yarn.lock'') (depName @ ''@'' @ ver)
                     (depName @ ''@'' @ rangeToUse ver rng)]\<rparr>)"
    using a assms by (intro installDependencyVersion_ok) simp_all
  then show "installDependencyVersion drv node p depName ver dev rng w =
              removeExtraneousNodeModules drv node p
                (w\<lparr>files := fs1
                      (packageJsonLocation p \<mapsto>
                         replaceAll ([CHR 0x22] @ depName @ [CHR 0x22] @ '': '' @ [CHR 0x22] @ ver @ [CHR 0x22])
                           ([CHR 0x22] @ depName @ [CHR 0x22] @ '': '' @ [CHR 0x22] @ rangeToUse ver rng @ [CHR 0x22]) manifest,
                       resolve node (path p) ''yarn.lock'' \<mapsto>
                         replaceAll (depName @ ''@'' @ ver) (depName @ ''@'' @ rangeToUse ver rng) lock),
                   calls := calls w @
                     [InstallInDir (path p) None None,
                      PatchFile (packageJsonLocation p) ([CHR 0x22] @ depName @ [CHR 0x22] @ '': '' @ [CHR 0x22] @ ver @ [CHR 0x22])
                        ([CHR 0x22] @ depName @ [CHR 0x22] @ '': '' @ [CHR 0x22] @ rangeToUse ver rng @ [CHR 0x22]),
                      PatchFile (resolve node (path p) ''yarn.lock'') (depName @ ''@'' @ ver)
                        (depName @ ''@'' @ rangeToUse ver rng)]\<rparr>)"
    using assms by (simp add: install_call_def)
qed

theorem installDependencyVersion_workspace_member_witness:
  "isWorkspaceProject member_project \<and>
   installDependencyVersion (quiet_driver []) posix_node member_project
     ''lodash'' ''4.17.21'' False None lodash_world =
     (Inr (),
      \<lparr> files = [''/ws/app/package.json'' \<mapsto>
                   ''{'' @ [CHR 0x22] @ ''lodash'' @ [CHR 0x22] @ '': '' @
                     [CHR 0x22] @ ''^4.17.21'' @ [CHR 0x22] @
                   '', '' @ [CHR 0x22] @ ''x'' @ [CHR 0x22] @ '': '' @
                     [CHR 0x22] @ ''lodash@4.17.21'' @ [CHR 0x22] @
                   '', '' @ [CHR 0x22] @ ''lodash'' @ [CHR 0x22] @ '': '' @
                     [CHR 0x22] @ ''^4.17.21'' @ [CHR 0x22] @ ''}'',
                 ''/ws/app/yarn.lock'' \<mapsto> ''lodash@^4.17.21, lodash@^3.0.0, lodash@^4.17.21:''],
        calls = [InstallInDir ''/ws/app'' None None,
                 PatchFile ''/ws/app/package.json''
                   ([CHR 0x22] @ ''lodash'' @ [CHR 0x22] @ '': '' @ [CHR 0x22] @ ''4.17.21'' @ [CHR 0x22])
                   ([CHR 0x22] @ ''lodash'' @ [CHR 0x22] @ '': '' @ [CHR 0x22] @ ''^4.17.21'' @ [CHR 0x22]),
                 PatchFile ''/ws/app/yarn.lock'' ''lodash@4.17.21'' ''lodash@^4.17.21''] \<rparr>)"
proof -
  have h: "isWorkspaceProject member_project"
    by (simp add: member_project_fields)
  have "installDependencyVersion (quiet_driver []) posix_node member_project
     ''lodash'' ''4.17.21'' False None lodash_world =
     (Inr (),
      \<lparr> files = [''/ws/app/package.json'' \<mapsto> lodash_manifest_patched,
                 ''/ws/app/yarn.lock'' \<mapsto> lodash_lock_patched],
        calls = [InstallInDir ''/ws/app'' None None,
                 PatchFile ''/ws/app/package.json''
                   ([CHR 0x22] @ ''lodash'' @ [CHR 0x22] @ '': '' @ [CHR 0x22] @ ''4.17.21'' @ [CHR 0x22])
                   ([CHR 0x22] @ ''lodash'' @ [CHR 0x22] @ '': '' @ [CHR 0x22] @ ''^4.17.21'' @ [CHR 0x22]),
                 PatchFile ''/ws/app/yarn.lock'' ''lodash@4.17.21'' ''lodash@^4.17.21''] \<rparr>)"
    using installDependencyVersion_workspace_member [OF h, where drv = "quiet_driver []"
            and node = posix_node and depName = "''lodash''" and ver = "''4.17.21''" and dev = False
            and rng = None and w = lodash_world and ?fs1.0 = "files lodash_world"
            and manifest = lodash_manifest and lock = lodash_lock]
          replaceAll_lodash_manifest replaceAll_lodash_lock
    by (simp add: removeExtraneousNodeModules_def member_project_fields app_project_fields(5)
          lodash_world_fields quiet_driver_def rangeToUse_def)
  then have "installDependencyVersion (quiet_driver []) posix_node member_project
     ''lodash'' ''4.17.21'' False None lodash_world =
     (Inr (),
      \<lparr> files = [''/ws/app/package.json'' \<mapsto>
                   ''{'' @ [CHR 0x22] @ ''lodash'' @ [CHR 0x22] @ '': '' @
                     [CHR 0x22] @ ''^4.17.21'' @ [CHR 0x22] @
                   '', '' @ [CHR 0x22] @ ''x'' @ [CHR 0x22] @ '': '' @
                     [CHR 0x22] @ ''lodash@4.17.21'' @ [CHR 0x22] @
                   '', '' @ [CHR 0x22] @ ''lodash'' @ [CHR 0x22] @ '': '' @
                     [CHR 0x22] @ ''^4.17.21'' @ [CHR 0x22] @ ''}'',
                 ''/ws/app/yarn.lock'' \<mapsto> ''lodash@^4.17.21, lodash@^3.0.0, lodash@^4.17.21:''],
        calls = [InstallInDir ''/ws/app'' None None,
                 PatchFile ''/ws/app/package.json''
                   ([CHR 0x22] @ ''lodash'' @ [CHR 0x22] @ '': '' @ [CHR 0x22] @ ''4.17.21'' @ [CHR 0x22])
                   ([CHR 0x22] @ ''lodash'' @ [CHR 0x22] @ '': '' @ [CHR 0x22] @ ''^4.17.21'' @ [CHR 0x22]),
                 PatchFile ''/ws/app/yarn.lock'' ''lodash@4.17.21'' ''lodash@^4.17.21''] \<rparr>)"
    by (simp add: lodash_manifest_patched_def lodash_lock_patched_def)
  with h show ?thesis by simp
qed

end
